theory Spec2Isabelle
  imports Main "HOL-Library.Sublist"
begin

section \<open>Strings and the path library\<close>

text \<open>
  JavaScript strings are modelled as \<open>string\<close>: every \<open>char\<close> is one code unit below 256
  (ASCII and Latin-1). The functions of this section are the library functions the
  repository calls (\<open>String.prototype\<close>, Node's POSIX \<open>path\<close> module, the
  \<open>sanitize-filename\<close> package); they are transcribed from the libraries' published
  algorithms, for the POSIX platform the action runs on.
\<close>

definition code :: "char \<Rightarrow> nat" where
  "code c = of_char c"

definition ascii_lower :: "char \<Rightarrow> char" where
  "ascii_lower c = (if 65 \<le> code c \<and> code c \<le> 90 then char_of (code c + 32) else c)"

text \<open>\<open>String.prototype.toLowerCase\<close> on code units below 256.\<close>

definition lower_char :: "char \<Rightarrow> char" where
  "lower_char c =
     (if (65 \<le> code c \<and> code c \<le> 90) \<or> (192 \<le> code c \<and> code c \<le> 222 \<and> code c \<noteq> 215)
      then char_of (code c + 32) else c)"

definition toLowerCase :: "string \<Rightarrow> string" where
  "toLowerCase s = map lower_char s"

text \<open>\<open>s.replace(pat, rep)\<close> with a string pattern: the first occurrence only.\<close>

fun replace_first :: "string \<Rightarrow> string \<Rightarrow> string \<Rightarrow> string" where
  "replace_first pat rep [] = (if pat = [] then rep else [])"
| "replace_first pat rep (c # cs) =
     (if prefix pat (c # cs) then rep @ drop (length pat) (c # cs)
      else c # replace_first pat rep cs)"

text \<open>\<open>s.match('.app$')\<close>: the string becomes the regular expression \<open>.app$\<close>, whose dot
  matches any character but a line terminator.\<close>

definition line_terminator :: "char \<Rightarrow> bool" where
  "line_terminator c = (code c = 10 \<or> code c = 13)"

definition matches_dot_app :: "string \<Rightarrow> bool" where
  "matches_dot_app s =
     (4 \<le> length s \<and> drop (length s - 3) s = ''app'' \<and> \<not> line_terminator (s ! (length s - 4)))"

fun split_on :: "char \<Rightarrow> string \<Rightarrow> string list" where
  "split_on c [] = [[]]"
| "split_on c (x # xs) =
     (if x = c then [] # split_on c xs
      else (case split_on c xs of [] \<Rightarrow> [[x]] | s # ss \<Rightarrow> (x # s) # ss))"

fun join_segments :: "string list \<Rightarrow> string" where
  "join_segments [] = []"
| "join_segments [s] = s"
| "join_segments (s # t # ss) = s @ CHR ''/'' # join_segments (t # ss)"

text \<open>One segment of Node's \<open>normalizeString\<close>: empty and \<open>.\<close> segments are dropped,
  \<open>..\<close> removes the segment before it (or is kept when nothing is left and the path is
  relative), any other segment is appended.\<close>

definition normalize_step :: "bool \<Rightarrow> string list \<Rightarrow> string \<Rightarrow> string list" where
  "normalize_step allowAboveRoot res seg =
     (if seg = [] \<or> seg = ''.'' then res
      else if seg = ''..'' then
        (if res \<noteq> [] \<and> last res \<noteq> ''..'' then butlast res
         else if allowAboveRoot then res @ [''..''] else res)
      else res @ [seg])"

definition normalizeString :: "string \<Rightarrow> bool \<Rightarrow> string" where
  "normalizeString p allowAboveRoot =
     join_segments (foldl (normalize_step allowAboveRoot) [] (split_on CHR ''/'' p))"

definition path_normalize :: "string \<Rightarrow> string" where
  "path_normalize p =
     (if p = [] then ''.''
      else let isAbsolute = (hd p = CHR ''/'');
               trailingSeparator = (last p = CHR ''/'');
               q = normalizeString p (\<not> isAbsolute)
           in if q = [] then (if isAbsolute then ''/'' else if trailingSeparator then ''./'' else ''.'')
              else (if isAbsolute then ''/'' else []) @ q @ (if trailingSeparator then ''/'' else []))"

definition path_join :: "string list \<Rightarrow> string" where
  "path_join args =
     (let parts = filter (\<lambda>a. a \<noteq> []) args
      in if parts = [] then ''.'' else path_normalize (join_segments parts))"

text \<open>\<open>path.resolve(p)\<close> with one argument; \<open>cwd\<close> is \<open>process.cwd()\<close>.\<close>

definition path_resolve :: "string \<Rightarrow> string \<Rightarrow> string" where
  "path_resolve cwd p =
     (let r1 = (if p = [] then [] else p @ ''/'');
          abs1 = (p \<noteq> [] \<and> hd p = CHR ''/'');
          r2 = (if abs1 \<or> cwd = [] then r1 else cwd @ ''/'' @ r1);
          abs2 = (abs1 \<or> (cwd \<noteq> [] \<and> hd cwd = CHR ''/''));
          q = normalizeString r2 (\<not> abs2)
      in if abs2 then CHR ''/'' # q else if q \<noteq> [] then q else ''.'')"

definition path_basename :: "string \<Rightarrow> string" where
  "path_basename p =
     rev (takeWhile (\<lambda>c. c \<noteq> CHR ''/'') (dropWhile (\<lambda>c. c = CHR ''/'') (rev p)))"

definition path_dirname :: "string \<Rightarrow> string" where
  "path_dirname p =
     (if p = [] then ''.''
      else let hasRoot = (hd p = CHR ''/'');
               q = dropWhile (\<lambda>c. c \<noteq> CHR ''/'') (dropWhile (\<lambda>c. c = CHR ''/'') (rev p))
           in if length q \<le> 1 then (if hasRoot then ''/'' else ''.'')
              else if hasRoot \<and> length q = 2 then ''//''
              else take (length q - 1) p)"

definition path_extname :: "string \<Rightarrow> string" where
  "path_extname p =
     (let b = path_basename p;
          e = takeWhile (\<lambda>c. c \<noteq> CHR ''.'') (rev b)
      in if length e = length b then []
         else if length b - length e - 1 = 0 then []
         else if b = ''..'' then []
         else drop (length b - length e - 1) b)"

subsection \<open>The \<open>sanitize-filename\<close> package\<close>

definition illegal_char :: "char \<Rightarrow> bool" where
  \<comment> \<open>the characters of \<open>/ ? < > : * |\<close>, the backslash (92) and the double quote (34)\<close>
  "illegal_char c = (c \<in> set ''/?<>:*|'' \<or> code c = 92 \<or> code c = 34)"

definition control_char :: "char \<Rightarrow> bool" where
  "control_char c = (code c \<le> 31 \<or> (128 \<le> code c \<and> code c \<le> 159))"

definition windows_reserved_names :: "string list" where
  "windows_reserved_names =
     [''con'', ''prn'', ''aux'', ''nul'',
      ''com0'', ''com1'', ''com2'', ''com3'', ''com4'', ''com5'', ''com6'', ''com7'', ''com8'', ''com9'',
      ''lpt0'', ''lpt1'', ''lpt2'', ''lpt3'', ''lpt4'', ''lpt5'', ''lpt6'', ''lpt7'', ''lpt8'', ''lpt9'']"

definition windows_reserved :: "string \<Rightarrow> bool" where
  "windows_reserved s =
     (takeWhile (\<lambda>c. c \<noteq> CHR ''.'') (map ascii_lower s) \<in> set windows_reserved_names
      \<and> \<not> list_ex line_terminator s)"

definition utf8_length :: "char \<Rightarrow> nat" where
  "utf8_length c = (if code c < 128 then 1 else 2)"

fun truncate_bytes :: "nat \<Rightarrow> string \<Rightarrow> string" where
  "truncate_bytes n [] = []"
| "truncate_bytes n (c # cs) =
     (if n < utf8_length c then [] else c # truncate_bytes (n - utf8_length c) cs)"

definition sanitize :: "string \<Rightarrow> string" where
  "sanitize input =
     (let s1 = filter (\<lambda>c. \<not> illegal_char c) input;
          s2 = filter (\<lambda>c. \<not> control_char c) s1;
          s3 = (if s2 \<noteq> [] \<and> list_all (\<lambda>c. c = CHR ''.'') s2 then [] else s2);
          s4 = (if windows_reserved s3 then [] else s3);
          s5 = rev (dropWhile (\<lambda>c. c = CHR ''.'' \<or> c = CHR '' '') (rev s4))
      in truncate_bytes 255 s5)"

section \<open>Configuration, presets and build results\<close>

text \<open>
  The action's inputs (\<open>constants.ts\<close> reads them once with \<open>core.getInput\<close>), together
  with the three values the process supplies: \<open>os.homedir()\<close>, \<open>process.cwd()\<close> and the
  module's \<open>__dirname\<close>. The last three fields are the constants that \<open>file.ts\<close> imports
  and \<open>constants.ts\<close> does not show; they are parameters: the platform name
  \<open>DESKTOP_PLATFORM.macOS\<close>, the object \<open>DESKTOP_PLATFORMS\<close> as its key and value pairs, and
  the table \<open>STEAM_SDK_TARGET_PATH\<close> as the function from a platform to its entry.
\<close>

record config =
  RELATIVE_EXPORT_PATH :: string
  RELATIVE_PROJECT_PATH :: string
  USE_PRESET_EXPORT_PATH :: bool
  EXPORT_DEBUG :: bool
  GODOT_VERBOSE :: bool
  ARCHIVE_ROOT_FOLDER :: bool
  USE_GODOT_4 :: bool
  EXPORT_PACK_ONLY :: bool
  homedir :: string
  cwd :: string
  dist_dirname :: string
  DESKTOP_PLATFORM_macOS :: string
  DESKTOP_PLATFORMS :: "(string \<times> string) list"
  STEAM_SDK_TARGET_PATH :: "string \<Rightarrow> string"

definition GODOT_WORKING_PATH :: "config \<Rightarrow> string" where
  "GODOT_WORKING_PATH cfg = path_resolve (cwd cfg) (path_join [homedir cfg, ''/.local/share/godot''])"

definition GODOT_CONFIG_PATH :: "config \<Rightarrow> string" where
  "GODOT_CONFIG_PATH cfg = path_resolve (cwd cfg) (path_join [homedir cfg, ''/.config/godot''])"

definition GODOT_BUILD_PATH :: "config \<Rightarrow> string" where
  "GODOT_BUILD_PATH cfg = path_join [GODOT_WORKING_PATH cfg, ''builds'']"

definition GODOT_ARCHIVE_PATH :: "config \<Rightarrow> string" where
  "GODOT_ARCHIVE_PATH cfg = path_join [GODOT_WORKING_PATH cfg, ''archives'']"

definition GODOT_PROJECT_PATH :: "config \<Rightarrow> string" where
  "GODOT_PROJECT_PATH cfg = path_resolve (cwd cfg) (path_join [RELATIVE_PROJECT_PATH cfg])"

definition GODOT_PROJECT_FILE_PATH :: "config \<Rightarrow> string" where
  "GODOT_PROJECT_FILE_PATH cfg = path_join [GODOT_PROJECT_PATH cfg, ''project.godot'']"

definition STEAM_APPID_PATH :: "config \<Rightarrow> string" where
  "STEAM_APPID_PATH cfg =
     path_resolve (cwd cfg) (path_join [RELATIVE_PROJECT_PATH cfg, ''steam_appid.txt''])"

definition EDITOR_SETTINGS_FILENAME :: "config \<Rightarrow> string" where
  "EDITOR_SETTINGS_FILENAME cfg =
     (if USE_GODOT_4 cfg then ''editor_settings-4.tres'' else ''editor_settings-3.tres'')"

text \<open>\<open>ExportPreset\<close> and \<open>BuildResult\<close> of \<open>types/GodotExport\<close>, with the fields the
  code reads and writes. An absent \<open>export_path\<close> is the empty string (both are falsy).\<close>

record ExportPreset =
  name :: string
  platform :: string
  export_path :: string

record BuildResult =
  preset :: ExportPreset
  sanitizedName :: string
  executablePath :: string
  directoryEntryCount :: nat
  directory :: string
  archivePath :: "string option"

datatype error = Error string

text \<open>What a run does to the outside world, in order: log lines, directory creation and
  copies through \<open>@actions/io\<close>, external programs through \<open>@actions/exec\<close>. The pictographs
  that open some log lines are left out of the messages.\<close>

datatype event =
    Info string
  | Warning string
  | StartGroup string
  | EndGroup
  | MkdirP string
  | Cp string string
  | CpRecursive string string
  | AddPath string
  | Exec string "string list"

text \<open>The promise of \<open>exec\<close> resolves to the exit code or rejects with a message.\<close>

datatype exec_outcome = Exit int | Rejected string

text \<open>
  The environment of a run: how the \<open>k\<close>-th external program of the run ends, how many
  entries \<open>fs.readdirSync\<close> finds in a directory after \<open>k\<close> programs have run, and what
  \<open>fs.existsSync\<close> answers. Directory creation, listing and copies through \<open>@actions/io\<close>
  are taken to succeed in the functions that only record them as events.
\<close>

record world =
  exec_run :: "nat \<Rightarrow> string \<Rightarrow> string list \<Rightarrow> exec_outcome"
  readdir_length :: "nat \<Rightarrow> string \<Rightarrow> nat"
  existsSync :: "string \<Rightarrow> bool"

section \<open>The export loop (\<open>godot.ts\<close>)\<close>

definition bool_text :: "bool \<Rightarrow> string" where
  "bool_text b = (if b then ''true'' else ''false'')"

definition splice_insert :: "nat \<Rightarrow> 'a \<Rightarrow> 'a list \<Rightarrow> 'a list" where
  \<comment> \<open>\<open>args.splice(i, 0, x)\<close>\<close>
  "splice_insert i x xs = take i xs @ x # drop i xs"

text \<open>Lines 184 to 204 of \<open>doExport\<close>: the output path, the export flag and the argument
  list of one invocation.\<close>

definition export_output_path :: "config \<Rightarrow> string \<Rightarrow> string" where
  "export_output_path cfg exePath =
     (if EXPORT_PACK_ONLY cfg then exePath @ ''.pck'' else exePath)"

definition exportFlag :: "config \<Rightarrow> string" where
  "exportFlag cfg =
     (if USE_GODOT_4 cfg then (if EXPORT_DEBUG cfg then ''--export-debug'' else ''--export-release'')
      else if EXPORT_PACK_ONLY cfg then ''--export-pack''
      else (if EXPORT_DEBUG cfg then ''--export-debug'' else ''--export''))"

definition export_args :: "config \<Rightarrow> ExportPreset \<Rightarrow> string \<Rightarrow> string list" where
  "export_args cfg p exePath =
     (let args = [GODOT_PROJECT_FILE_PATH cfg, exportFlag cfg, name p, exePath];
          args = (if USE_GODOT_4 cfg then splice_insert 1 ''--headless'' args else args);
          args = (if GODOT_VERBOSE cfg then args @ [''--verbose''] else args)
      in args)"

definition skip_warning :: "ExportPreset \<Rightarrow> string" where
  "skip_warning p =
     ''No file path set for preset '' @ [CHR 0x22] @ name p @ [CHR 0x22]
       @ ''. Skipping export!''"

text \<open>
  The \<open>for\<close> loop of \<open>doExport\<close> over the remaining presets: \<open>k\<close> counts the engine
  invocations made so far, \<open>acc\<close> is \<open>buildResults\<close>, \<open>tr\<close> the events so far. A thrown
  error ends the loop with \<open>Inl\<close>: \<open>buildResults\<close> is not returned.
\<close>

fun doExport_loop ::
  "config \<Rightarrow> world \<Rightarrow> ExportPreset list \<Rightarrow> nat \<Rightarrow> BuildResult list \<Rightarrow> event list
     \<Rightarrow> event list \<times> (error + BuildResult list)" where
  "doExport_loop cfg w [] k acc tr = (tr, Inr acc)"
| "doExport_loop cfg w (p # ps) k acc tr =
     (let sanitized = sanitize (name p);
          buildDir = path_join [GODOT_BUILD_PATH cfg, sanitized];
          exePath =
            (if export_path p \<noteq> [] then Some (path_join [buildDir, path_basename (export_path p)])
             else None)
      in case exePath of
           None \<Rightarrow> doExport_loop cfg w ps k acc (tr @ [Warning (skip_warning p)])
         | Some e0 \<Rightarrow>
             if e0 = [] then doExport_loop cfg w ps k acc (tr @ [Warning (skip_warning p)])
             else
               let e = export_output_path cfg e0;
                   tr1 = tr @ [MkdirP buildDir]
                     @ (if USE_GODOT_4 cfg then []
                        else [Info (''exporting mode: '' @ bool_text (EXPORT_PACK_ONLY cfg))]);
                   args = export_args cfg p e;
                   tr2 = tr1 @ [Exec ''godot'' args]
               in (case exec_run w k ''godot'' args of
                     Rejected m \<Rightarrow> (tr2, Inl (Error m))
                   | Exit result \<Rightarrow>
                       if result \<noteq> 0 then (tr2, Inl (Error ''1 or more exports failed''))
                       else doExport_loop cfg w ps (Suc k)
                              (acc @ [\<lparr>preset = p, sanitizedName = sanitized,
                                       executablePath = e,
                                       directoryEntryCount = readdir_length w (Suc k) buildDir,
                                       directory = buildDir, archivePath = None\<rparr>])
                              tr2))"

text \<open>\<open>doExport\<close> over the presets that \<open>getExportPresets\<close> returned.\<close>

definition doExport :: "config \<Rightarrow> world \<Rightarrow> ExportPreset list \<Rightarrow> event list \<times> (error + BuildResult list)" where
  "doExport cfg w presets =
     doExport_loop cfg w presets 0 []
       [Info (''Using project file at '' @ GODOT_PROJECT_FILE_PATH cfg)]"

definition execs :: "event list \<Rightarrow> (string \<times> string list) list" where
  "execs tr = concat (map (\<lambda>e. case e of Exec c a \<Rightarrow> [(c, a)] | _ \<Rightarrow> []) tr)"

section \<open>Finding the engine executable (\<open>godot.ts\<close>)\<close>

text \<open>The extracted tree: a regular file, or a directory with its entries in the order
  \<open>fs.readdirSync\<close> lists them.\<close>

datatype fsnode = File | Dir "(string \<times> fsnode) list"

definition isFile :: "fsnode \<Rightarrow> bool" where
  "isFile n = (case n of File \<Rightarrow> True | Dir _ \<Rightarrow> False)"

text \<open>The first loop of \<open>findGodotExecutablePath\<close>: the first entry that is a file with
  a known extension is returned (\<open>Inl\<close>); every other entry, a directory or not, is
  pushed on \<open>dirs\<close>.\<close>

fun scan_entries ::
  "string \<Rightarrow> (string \<times> fsnode) list \<Rightarrow> (string \<times> fsnode) list \<Rightarrow> string + (string \<times> fsnode) list" where
  "scan_entries basePath [] dirs = Inr dirs"
| "scan_entries basePath ((subPath, n) # rest) dirs =
     (let fullPath = path_join [basePath, subPath]
      in if isFile n \<and> (path_extname fullPath = ''.64'' \<or> path_extname fullPath = ''.x86_64'')
         then Inl fullPath
         else scan_entries basePath rest (dirs @ [(fullPath, n)]))"

lemma scan_entries_nodes:
  "scan_entries basePath es acc = Inr ds \<Longrightarrow> snd ` set ds \<subseteq> snd ` set es \<union> snd ` set acc"
proof (induction es arbitrary: acc)
  case Nil
  then show ?case by simp
next
  case (Cons e es)
  obtain subPath n where e: "e = (subPath, n)" by (cases e)
  from Cons.prems e
  have "scan_entries basePath es (acc @ [(path_join [basePath, subPath], n)]) = Inr ds"
    by (simp add: Let_def split: if_splits)
  from Cons.IH [OF this] e show ?case by auto
qed

lemma size_entry_less:
  "(a, n) \<in> set es \<Longrightarrow> size n < size (Dir es)"
  by (induction es) auto

text \<open>
  \<open>findGodotExecutablePath\<close>: \<open>fs.readdirSync\<close> throws on a path that is not a
  directory; the second loop returns from its first iteration.
\<close>

function findGodotExecutablePath :: "string \<Rightarrow> fsnode \<Rightarrow> error + string option" where
  "findGodotExecutablePath basePath File = Inl (Error ''ENOTDIR: not a directory, scandir'')"
| "findGodotExecutablePath basePath (Dir entries) =
     (case scan_entries basePath entries [] of
        Inl fullPath \<Rightarrow> Inr (Some fullPath)
      | Inr dirs \<Rightarrow>
          (case dirs of
             [] \<Rightarrow> Inr None
           | (d, n) # _ \<Rightarrow> findGodotExecutablePath d n))"
  by pat_completeness auto
termination
proof (relation "measure (\<lambda>(basePath, n). size n)", goal_cases)
  case 1
  show ?case by simp
next
  case (2 basePath entries dirs x rest d n)
  from scan_entries_nodes [OF 2(1)] 2(2,3) have "n \<in> snd ` set entries" by force
  then obtain a where "(a, n) \<in> set entries" by force
  from size_entry_less [OF this] show ?case by simp
qed

text \<open>A run of \<open>await exec(...)\<close> statements whose results are not read: a rejected
  promise throws and ends the run. \<open>k\<close> is the number of programs run before.\<close>

fun exec_all :: "world \<Rightarrow> nat \<Rightarrow> (string \<times> string list) list \<Rightarrow> event list \<times> error option" where
  "exec_all w k [] = ([], None)"
| "exec_all w k ((c, a) # rest) =
     (case exec_run w k c a of
        Rejected m \<Rightarrow> ([Exec c a], Some (Error m))
      | Exit r \<Rightarrow> (case exec_all w (Suc k) rest of (tr, res) \<Rightarrow> (Exec c a # tr, res)))"

text \<open>\<open>prepareExecutable\<close>; \<open>tree\<close> is what the extraction left under
  \<open>godot_executable\<close>.\<close>

definition prepareExecutable :: "config \<Rightarrow> world \<Rightarrow> fsnode \<Rightarrow> event list \<times> (error + unit)" where
  "prepareExecutable cfg w tree =
     (let zipFile = path_join [GODOT_WORKING_PATH cfg, ''godot.zip''];
          zipTo = path_join [GODOT_WORKING_PATH cfg, ''godot_executable''];
          tr0 = [Info (''Looking for executable at '' @ zipFile)]
      in case exec_all w 0 [(''7z'', [''x'', zipFile, ''-o'' @ zipTo, ''-y''])] of
           (tr1, Some e) \<Rightarrow> (tr0 @ tr1, Inl e)
         | (tr1, None) \<Rightarrow>
             (case findGodotExecutablePath zipTo tree of
                Inl e \<Rightarrow> (tr0 @ tr1, Inl e)
              | Inr None \<Rightarrow> (tr0 @ tr1, Inl (Error ''Could not find Godot executable''))
              | Inr (Some exePath) \<Rightarrow>
                  if exePath = [] then (tr0 @ tr1, Inl (Error ''Could not find Godot executable''))
                  else
                    let finalGodotPath = path_join [path_dirname exePath, ''godot''] in
                    (case exec_all w 1 [(''mv'', [exePath, finalGodotPath])] of
                       (tr2, Some e) \<Rightarrow> (tr0 @ tr1 @ tr2, Inl e)
                     | (tr2, None) \<Rightarrow>
                         (case exec_all w 2 [(''chmod'', [''+x'', finalGodotPath])] of
                            (tr3, Some e) \<Rightarrow>
                              (tr0 @ tr1 @ tr2 @ [AddPath (path_dirname finalGodotPath)] @ tr3, Inl e)
                          | (tr3, None) \<Rightarrow>
                              (tr0 @ tr1 @ tr2 @ [AddPath (path_dirname finalGodotPath)] @ tr3,
                               Inr ())))))"

text \<open>
  The search as the specification words it: a depth-first traversal of the whole tree
  that returns the first regular file whose extension is a known binary suffix.
\<close>

definition known_binary_suffix :: "string \<Rightarrow> bool" where
  "known_binary_suffix p = (path_extname p = ''.64'' \<or> path_extname p = ''.x86_64'')"

fun depth_first_search :: "string \<Rightarrow> fsnode \<Rightarrow> string option"
  and depth_first_entries :: "string \<Rightarrow> (string \<times> fsnode) list \<Rightarrow> string option" where
  "depth_first_search p File = (if known_binary_suffix p then Some p else None)"
| "depth_first_search p (Dir es) = depth_first_entries p es"
| "depth_first_entries basePath [] = None"
| "depth_first_entries basePath ((subPath, n) # rest) =
     (case depth_first_search (path_join [basePath, subPath]) n of
        Some f \<Rightarrow> Some f
      | None \<Rightarrow> depth_first_entries basePath rest)"

section \<open>Packaging and relocation (\<open>file.ts\<close>)\<close>

text \<open>\<open>zipBuildResult\<close> of \<open>file.ts\<close>, lines 47 to 65.\<close>

definition zipBuildResult :: "config \<Rightarrow> world \<Rightarrow> BuildResult \<Rightarrow> event list \<times> (error + BuildResult)" where
  "zipBuildResult cfg w br =
     (let zipPath = path_join [GODOT_ARCHIVE_PATH cfg, sanitizedName br @ ''.zip''];
          isMac = (toLowerCase (platform (preset br)) = DESKTOP_PLATFORM_macOS cfg);
          endsInDotApp = matches_dot_app (export_path (preset br));
          tr0 = [MkdirP (GODOT_ARCHIVE_PATH cfg)]
      in if isMac \<and> \<not> endsInDotApp then
           let baseName = path_basename (export_path (preset br));
               macPath = path_join [directory br, baseName]
           in (tr0 @ [Cp macPath zipPath], Inr (br\<lparr>archivePath := Some zipPath\<rparr>))
         else if \<not> existsSync w zipPath then
           (case exec_all w 0
                   [(''7z'', [''a'', zipPath,
                              directory br @ (if ARCHIVE_ROOT_FOLDER cfg then [] else ''/*'')])] of
              (tr1, Some e) \<Rightarrow> (tr0 @ tr1, Inl e)
            | (tr1, None) \<Rightarrow> (tr0 @ tr1, Inr (br\<lparr>archivePath := Some zipPath\<rparr>)))
         else (tr0, Inr (br\<lparr>archivePath := Some zipPath\<rparr>)))"

text \<open>The variant of the unnamed source part, which assembles the Steam contents:
  \<open>assembleSteamContentsFor\<close> (lines 67 to 87) and \<open>zipBuildResult\<close> (lines 99 to 122).\<close>

definition assembleSteamContentsFor ::
  "config \<Rightarrow> world \<Rightarrow> nat \<Rightarrow> ExportPreset \<Rightarrow> string \<Rightarrow> event list \<times> error option" where
  "assembleSteamContentsFor cfg w k p buildDir =
     (let libPath = STEAM_SDK_TARGET_PATH cfg (platform p);
          tr0 = [Info (''Assembling steam contents for '' @ platform p),
                 Info (''Basename: '' @ path_basename (export_path p))]
      in if Some (platform p) = map_of (DESKTOP_PLATFORMS cfg) ''macOS'' then
           let buildLocation = replace_first (path_basename (export_path p)) [] buildDir;
               resolvedBuildDir = replace_first ''.zip'' ''.app'' buildDir;
               macOSPath = path_join [resolvedBuildDir, ''Contents'', ''MacOS'']
           in (case exec_all w k
                     [(''unzip'', [''-q'', buildDir, ''-d'', buildLocation]),
                      (''rm'', [buildDir]),
                      (''ls'', [resolvedBuildDir]),
                      (''cp'', [STEAM_APPID_PATH cfg, macOSPath]),
                      (''mv'', [libPath, macOSPath]),
                      (''7z'', [''a'', resolvedBuildDir, buildDir])] of
                 (tr1, res) \<Rightarrow> (tr0 @ tr1, res))
         else
           (case exec_all w k
                   [(''cp'', [STEAM_APPID_PATH cfg, buildDir]),
                    (''mv'', [libPath, buildDir])] of
              (tr1, res) \<Rightarrow> (tr0 @ tr1, res)))"

definition zipBuildResult_steam ::
  "config \<Rightarrow> world \<Rightarrow> BuildResult \<Rightarrow> event list \<times> (error + BuildResult)" where
  "zipBuildResult_steam cfg w br =
     (let zipPath = path_join [GODOT_ARCHIVE_PATH cfg, sanitizedName br @ ''.zip''];
          isMac = (toLowerCase (platform (preset br)) = ''mac osx'');
          endsInDotApp = matches_dot_app (export_path (preset br));
          tr0 = [MkdirP (GODOT_ARCHIVE_PATH cfg)]
      in if isMac \<and> \<not> endsInDotApp then
           let baseName = path_basename (export_path (preset br));
               macPath = path_join [directory br, baseName]
           in (case assembleSteamContentsFor cfg w 0 (preset br) macPath of
                 (tr1, Some e) \<Rightarrow> (tr0 @ tr1, Inl e)
               | (tr1, None) \<Rightarrow>
                   (tr0 @ tr1 @ [Cp macPath zipPath], Inr (br\<lparr>archivePath := Some zipPath\<rparr>)))
         else if \<not> existsSync w zipPath then
           (let tr1 = [Info (''Zipping for '' @ platform (preset br))];
                assembled =
                  (if platform (preset br) \<in> set (map snd (DESKTOP_PLATFORMS cfg))
                   then assembleSteamContentsFor cfg w 0 (preset br) (directory br)
                   else ([], None))
            in case assembled of
                 (tr2, Some e) \<Rightarrow> (tr0 @ tr1 @ tr2, Inl e)
               | (tr2, None) \<Rightarrow>
                   (case exec_all w (length (execs tr2))
                           [(''7z'', [''a'', zipPath,
                                      directory br @ (if ARCHIVE_ROOT_FOLDER cfg then [] else ''/*'')])] of
                      (tr3, Some e) \<Rightarrow> (tr0 @ tr1 @ tr2 @ tr3, Inl e)
                    | (tr3, None) \<Rightarrow>
                        (tr0 @ tr1 @ tr2 @ tr3, Inr (br\<lparr>archivePath := Some zipPath\<rparr>))))
         else (tr0, Inr (br\<lparr>archivePath := Some zipPath\<rparr>)))"

text \<open>One iteration of the loop of \<open>moveBuildsToExportDirectory\<close>: the events it adds and
  the build result as it leaves it.\<close>

definition fullExportPath :: "config \<Rightarrow> BuildResult \<Rightarrow> string" where
  "fullExportPath cfg br =
     path_resolve (cwd cfg)
       (if USE_PRESET_EXPORT_PATH cfg
        then path_join [GODOT_PROJECT_PATH cfg, path_dirname (export_path (preset br))]
        else RELATIVE_EXPORT_PATH cfg)"

definition not_archived_warning :: string where
  "not_archived_warning = ''Attempted to move export output that was not archived. Skipping''"

definition move_one :: "config \<Rightarrow> bool \<Rightarrow> BuildResult \<Rightarrow> event list \<times> BuildResult" where
  "move_one cfg moveArchived br =
     (let dest = fullExportPath cfg br;
          tr0 = [MkdirP dest]
      in if moveArchived then
           (case archivePath br of
              None \<Rightarrow> (tr0 @ [Warning not_archived_warning], br)
            | Some ap \<Rightarrow>
                if ap = [] then (tr0 @ [Warning not_archived_warning], br)
                else
                  let newArchivePath = path_join [dest, path_basename ap]
                  in (tr0 @ [Info (''Copying '' @ ap @ '' to '' @ newArchivePath), Cp ap newArchivePath],
                      br\<lparr>archivePath := Some newArchivePath\<rparr>))
         else
           let newDirectory = path_join [dest, path_basename (directory br)]
           in (tr0 @ [Info (''Copying '' @ directory br @ '' to '' @ dest),
                      CpRecursive (directory br) dest],
               br\<lparr>directory := newDirectory,
                  executablePath := path_join [newDirectory, path_basename (executablePath br)]\<rparr>))"

fun move_loop :: "config \<Rightarrow> bool \<Rightarrow> BuildResult list \<Rightarrow> event list \<times> BuildResult list" where
  "move_loop cfg moveArchived [] = ([], [])"
| "move_loop cfg moveArchived (br # rest) =
     (case move_one cfg moveArchived br of
        (tr, br') \<Rightarrow>
          (case move_loop cfg moveArchived rest of
             (trs, brs) \<Rightarrow> (tr @ trs, br' # brs)))"

definition moveBuildsToExportDirectory ::
  "config \<Rightarrow> BuildResult list \<Rightarrow> bool \<Rightarrow> event list \<times> BuildResult list" where
  "moveBuildsToExportDirectory cfg buildResults moveArchived =
     (case move_loop cfg moveArchived buildResults of
        (tr, brs) \<Rightarrow> (StartGroup ''Moving exports'' # tr @ [EndGroup], brs))"

section \<open>Editor settings and the preset file (\<open>godot.ts\<close>)\<close>

text \<open>
  A file system as far as \<open>addEditorSettings\<close> touches it: absolute paths to regular
  files with their contents, or to directories. \<open>io_mkdirP\<close> and \<open>io_cp\<close> follow
  \<open>mkdirP\<close> and \<open>cp\<close> of \<open>@actions/io\<close> (a copy that is not recursive, into an
  existing directory or to a path).
\<close>

datatype fsentry = RegularFile string | Directory

type_synonym filesystem = "string \<Rightarrow> fsentry option"

definition is_regular :: "fsentry option \<Rightarrow> bool" where
  "is_regular e = (case e of Some (RegularFile c) \<Rightarrow> True | _ \<Rightarrow> False)"

definition path_prefixes :: "string \<Rightarrow> string list" where
  "path_prefixes p = [take i p. i \<leftarrow> [1..<length p], p ! i = CHR ''/''] @ [p]"

definition io_mkdirP :: "filesystem \<Rightarrow> string \<Rightarrow> error + filesystem" where
  "io_mkdirP fs p =
     (if p = [] then Inl (Error ''a path argument must be provided'')
      else if list_ex (\<lambda>q. is_regular (fs q)) (path_prefixes p)
      then Inl (Error ''EEXIST: file already exists, mkdir'')
      else Inr (\<lambda>q. if q \<in> set (path_prefixes p) then Some Directory else fs q))"

definition io_cp :: "string \<Rightarrow> filesystem \<Rightarrow> string \<Rightarrow> string \<Rightarrow> bool \<Rightarrow> error + filesystem" where
  "io_cp wd fs source dest force =
     (if is_regular (fs dest) \<and> \<not> force then Inr fs
      else
        let newDest = (if fs dest = Some Directory then path_join [dest, path_basename source] else dest)
        in case fs source of
             None \<Rightarrow> Inl (Error (''no such file or directory: '' @ source))
           | Some Directory \<Rightarrow>
               Inl (Error (''Failed to copy. '' @ source
                           @ '' is a directory, but tried to copy without recursive flag.''))
           | Some (RegularFile content) \<Rightarrow>
               if path_resolve wd source = path_resolve wd newDest
               then Inl (Error (newDest @ '' and '' @ source @ '' are the same file''))
               else if fs newDest = None \<or> force then
                 (if fs (path_dirname newDest) = Some Directory
                  then Inr (fs(newDest \<mapsto> RegularFile content))
                  else Inl (Error (''ENOENT: no such file or directory, copyfile '' @ newDest)))
               else Inr fs)"

definition addEditorSettings :: "config \<Rightarrow> filesystem \<Rightarrow> error + filesystem \<times> event list" where
  "addEditorSettings cfg fs =
     (let editorSettingsDist = path_join [dist_dirname cfg, EDITOR_SETTINGS_FILENAME cfg] in
      case io_mkdirP fs (GODOT_CONFIG_PATH cfg) of
        Inl e \<Rightarrow> Inl e
      | Inr fs1 \<Rightarrow>
          let editorSettingsPath = path_join [GODOT_CONFIG_PATH cfg, EDITOR_SETTINGS_FILENAME cfg] in
          (case io_cp (cwd cfg) fs1 editorSettingsDist editorSettingsPath False of
             Inl e \<Rightarrow> Inl e
           | Inr fs2 \<Rightarrow> Inr (fs2, [Info (''Wrote editor settings to '' @ editorSettingsPath)])))"

text \<open>
  What \<open>ini.decode\<close> makes of \<open>export_presets.cfg\<close>, as far as \<open>getExportPresets\<close> reads
  it: the value under the key \<open>preset\<close>. It is \<open>None\<close> when that value is falsy (the file
  has no \<open>preset\<close> entry, or a top-level key \<open>preset\<close> that is empty, \<open>false\<close> or \<open>null\<close>);
  else it is the keys with their values in the order \<open>for ... in\<close> visits them. A value
  is a preset group (a section \<open>[preset.0]\<close>, \<open>[preset.1]\<close>, ...), the value \<open>null\<close>, or
  another value that is not an object, kept by its text: a key of the section \<open>[preset]\<close>
  itself with a string, a boolean or an array, or a character of a top-level string. A
  bare \<open>[preset]\<close> header gives no key at all. \<open>getExportPresets\<close> gets \<open>None\<close> for the file when
  \<open>hasExportPresets\<close> finds no such file.
\<close>

datatype ini_value = Group ExportPreset | Scalar string | Null

datatype ExportPresets = ExportPresets (preset_section: "(string \<times> ini_value) list option")

text \<open>The loop pushes every value it visits, whatever it is: the cast to \<open>ExportPreset\<close>
  checks nothing.\<close>

definition getExportPresets ::
  "config \<Rightarrow> ExportPresets option \<Rightarrow> event list \<times> (error + ini_value list)" where
  "getExportPresets cfg presets_file =
     (let projectPath = path_resolve (cwd cfg) (RELATIVE_PROJECT_PATH cfg) in
      case presets_file of
        None \<Rightarrow> ([], Inl (Error (''Could not find export_presets.cfg in '' @ projectPath)))
      | Some presets \<Rightarrow>
          (case preset_section presets of
             Some entries \<Rightarrow> ([], Inr (map snd entries))
           | None \<Rightarrow>
               ([Warning (''No presets found in export_presets.cfg at '' @ projectPath)], Inr [])))"

text \<open>
  \<open>doExport\<close> as the source has it, reading the presets from the file:
  \<open>for (const preset of getExportPresets())\<close>. One iteration on a preset group is one
  iteration of \<open>doExport_loop\<close>. On a value that is not an object, \<open>preset.name\<close> is
  \<open>undefined\<close> and \<open>sanitize\<close> throws; on \<open>null\<close> reading \<open>preset.name\<close> throws.
\<close>

fun doExport_values ::
  "config \<Rightarrow> world \<Rightarrow> ini_value list \<Rightarrow> nat \<Rightarrow> BuildResult list \<Rightarrow> event list
     \<Rightarrow> event list \<times> (error + BuildResult list)" where
  "doExport_values cfg w [] k acc tr = (tr, Inr acc)"
| "doExport_values cfg w (Scalar v # vs) k acc tr = (tr, Inl (Error ''Input must be string''))"
| "doExport_values cfg w (Null # vs) k acc tr =
     (tr, Inl (Error (''Cannot read properties of null (reading '' @ [CHR 0x27] @ ''name''
                      @ [CHR 0x27] @ '')'')))"
| "doExport_values cfg w (Group p # vs) k acc tr =
     (case doExport_loop cfg w [p] k acc tr of
        (tr1, Inl e) \<Rightarrow> (tr1, Inl e)
      | (tr1, Inr acc1) \<Rightarrow> doExport_values cfg w vs (k + length acc1 - length acc) acc1 tr1)"

definition doExport_of_file ::
  "config \<Rightarrow> world \<Rightarrow> ExportPresets option \<Rightarrow> event list \<times> (error + BuildResult list)" where
  "doExport_of_file cfg w presets_file =
     (let tr0 = [Info (''Using project file at '' @ GODOT_PROJECT_FILE_PATH cfg)] in
      case getExportPresets cfg presets_file of
        (tr1, Inl e) \<Rightarrow> (tr0 @ tr1, Inl e)
      | (tr1, Inr vs) \<Rightarrow> doExport_values cfg w vs 0 [] (tr0 @ tr1))"

section \<open>The decision table of the specification\<close>

text \<open>
  The table of section 4.3, row by row: engine major version (\<open>True\<close> for the current
  one), pack-only, debug. \<open>table_invocation\<close> is the invocation it describes, with the
  \<open>.pck\<close> suffix as the code appends it: whenever pack-only is requested.
\<close>

fun decision_table :: "bool \<Rightarrow> bool \<Rightarrow> bool \<Rightarrow> string" where
  "decision_table False False False = ''--export''"
| "decision_table False False True = ''--export-debug''"
| "decision_table False True debug = ''--export-pack''"
| "decision_table True packOnly False = ''--export-release''"
| "decision_table True packOnly True = ''--export-debug''"

definition table_invocation :: "config \<Rightarrow> ExportPreset \<Rightarrow> string list" where
  "table_invocation cfg p =
     [GODOT_PROJECT_FILE_PATH cfg]
     @ (if USE_GODOT_4 cfg then [''--headless''] else [])
     @ [decision_table (USE_GODOT_4 cfg) (EXPORT_PACK_ONLY cfg) (EXPORT_DEBUG cfg),
        name p,
        path_join [path_join [GODOT_BUILD_PATH cfg, sanitize (name p)], path_basename (export_path p)]
          @ (if EXPORT_PACK_ONLY cfg then ''.pck'' else [])]
     @ (if GODOT_VERBOSE cfg then [''--verbose''] else [])"

definition table_invocations :: "config \<Rightarrow> ExportPreset list \<Rightarrow> (string \<times> string list) list" where
  "table_invocations cfg ps =
     map (\<lambda>p. (''godot'', table_invocation cfg p)) (filter (\<lambda>p. export_path p \<noteq> []) ps)"

section \<open>Notions the claims are stated with\<close>

text \<open>The archive path of a build result, \<open><archiveRoot>/<sanitizedName>.zip\<close>, and the
  test that sends a build result down the macOS branch of \<open>zipBuildResult\<close>: the
  lower-cased platform is the macOS name and the export path does not match \<open>.app$\<close>.\<close>

definition zipPath :: "config \<Rightarrow> BuildResult \<Rightarrow> string" where
  "zipPath cfg br = path_join [GODOT_ARCHIVE_PATH cfg, sanitizedName br @ ''.zip'']"

definition mac_flat_export :: "string \<Rightarrow> BuildResult \<Rightarrow> bool" where
  "mac_flat_export macName br =
     (toLowerCase (platform (preset br)) = macName \<and> \<not> matches_dot_app (export_path (preset br)))"

text \<open>What relocation of archives reads from a build result: its archive path (empty when
  it has none), whether it has one, and where the archive goes.\<close>

definition archive_of :: "BuildResult \<Rightarrow> string" where
  "archive_of br = (case archivePath br of None \<Rightarrow> [] | Some ap \<Rightarrow> ap)"

definition archived :: "BuildResult \<Rightarrow> bool" where
  "archived br = (archive_of br \<noteq> [])"

definition relocated_archive :: "config \<Rightarrow> BuildResult \<Rightarrow> string" where
  "relocated_archive cfg br = path_join [fullExportPath cfg br, path_basename (archive_of br)]"

definition copies :: "event list \<Rightarrow> (string \<times> string) list" where
  "copies tr = concat (map (\<lambda>e. case e of Cp a b \<Rightarrow> [(a, b)] | CpRecursive a b \<Rightarrow> [(a, b)] | _ \<Rightarrow> []) tr)"

definition warnings :: "event list \<Rightarrow> string list" where
  "warnings tr = concat (map (\<lambda>e. case e of Warning m \<Rightarrow> [m] | _ \<Rightarrow> []) tr)"

definition mkdirs :: "event list \<Rightarrow> string list" where
  "mkdirs tr = concat (map (\<lambda>e. case e of MkdirP d \<Rightarrow> [d] | _ \<Rightarrow> []) tr)"

definition preset_values :: "ExportPresets \<Rightarrow> ini_value list" where
  "preset_values presets = (case preset_section presets of None \<Rightarrow> [] | Some entries \<Rightarrow> map snd entries)"

text \<open>The two parts of a normalized path: the root it starts at and its segments.\<close>

definition root_prefix :: "string \<Rightarrow> string" where
  "root_prefix b = (if hd b = CHR ''/'' then ''/'' else [])"

definition normal_segments :: "string \<Rightarrow> string list" where
  "normal_segments b = foldl (normalize_step (hd b \<noteq> CHR ''/'')) [] (split_on CHR ''/'' b)"

text \<open>Where \<open>addEditorSettings\<close> puts the settings file.\<close>

definition editorSettingsPath :: "config \<Rightarrow> string" where
  "editorSettingsPath cfg = path_join [GODOT_CONFIG_PATH cfg, EDITOR_SETTINGS_FILENAME cfg]"

text \<open>The events of one successful or failed engine invocation for a preset, and the build
  result \<open>doExport\<close> appends after the \<open>k\<close>-th successful one.\<close>

definition invocation_trace :: "config \<Rightarrow> ExportPreset \<Rightarrow> event list" where
  "invocation_trace cfg p =
     [MkdirP (path_join [GODOT_BUILD_PATH cfg, sanitize (name p)])]
     @ (if USE_GODOT_4 cfg then []
        else [Info (''exporting mode: '' @ bool_text (EXPORT_PACK_ONLY cfg))])
     @ [Exec ''godot'' (table_invocation cfg p)]"

definition built :: "config \<Rightarrow> world \<Rightarrow> nat \<Rightarrow> ExportPreset \<Rightarrow> BuildResult" where
  "built cfg w k p =
     \<lparr>preset = p, sanitizedName = sanitize (name p),
      executablePath =
        export_output_path cfg
          (path_join [path_join [GODOT_BUILD_PATH cfg, sanitize (name p)], path_basename (export_path p)]),
      directoryEntryCount = readdir_length w (Suc k) (path_join [GODOT_BUILD_PATH cfg, sanitize (name p)]),
      directory = path_join [GODOT_BUILD_PATH cfg, sanitize (name p)], archivePath = None\<rparr>"

section \<open>Example inputs\<close>

definition example_config :: config where
  "example_config =
     \<lparr>RELATIVE_EXPORT_PATH = ''dist'', RELATIVE_PROJECT_PATH = ''./'',
      USE_PRESET_EXPORT_PATH = False, EXPORT_DEBUG = False, GODOT_VERBOSE = False,
      ARCHIVE_ROOT_FOLDER = False, USE_GODOT_4 = False, EXPORT_PACK_ONLY = False,
      homedir = ''/home/runner'', cwd = ''/work'', dist_dirname = ''/action/dist'',
      DESKTOP_PLATFORM_macOS = ''mac osx'',
      DESKTOP_PLATFORMS = [(''linux'', ''Linux/X11''), (''windows'', ''Windows Desktop''),
                           (''macOS'', ''Mac OSX'')],
      STEAM_SDK_TARGET_PATH = (\<lambda>p. ''/work/sdk/libsteam_api'')\<rparr>"

definition quiet_world :: world where
  "quiet_world =
     \<lparr>exec_run = (\<lambda>k c a. Exit 0), readdir_length = (\<lambda>k d. 1), existsSync = (\<lambda>p. False)\<rparr>"

definition linux_preset :: ExportPreset where
  "linux_preset = \<lparr>name = ''Linux'', platform = ''Linux/X11'', export_path = ''build/game.x86_64''\<rparr>"

definition mac_preset :: ExportPreset where
  "mac_preset = \<lparr>name = ''Mac'', platform = ''Mac OSX'', export_path = ''build/game.zip''\<rparr>"

definition empty_path_preset :: ExportPreset where
  "empty_path_preset = \<lparr>name = ''Web'', platform = ''HTML5'', export_path = []\<rparr>"

definition legacy_pack_config :: config where
  "legacy_pack_config = example_config\<lparr>EXPORT_PACK_ONLY := True\<rparr>"

definition current_debug_config :: config where
  "current_debug_config =
     example_config\<lparr>USE_GODOT_4 := True, EXPORT_DEBUG := True, GODOT_VERBOSE := True\<rparr>"

definition failing_world :: world where
  "failing_world = quiet_world\<lparr>exec_run := (\<lambda>k c a. if k = 1 then Exit 1 else Exit 0)\<rparr>"

definition nested_tree :: fsnode where
  "nested_tree =
     Dir [(''docs'', Dir []),
          (''Godot_v3.5'',
             Dir [(''bin'', Dir [(''linux'', Dir [(''Godot_v3.5-stable_x11.64'', File)])]),
                  (''licenses'', Dir [])]),
          (''extras'', Dir [])]"

definition mac_build :: BuildResult where
  "mac_build = built example_config quiet_world 0 mac_preset"

definition archived_world :: world where
  "archived_world = quiet_world\<lparr>existsSync := (\<lambda>p. True)\<rparr>"

definition linux_build :: BuildResult where
  "linux_build = built example_config quiet_world 0 linux_preset"

definition unarchived_build :: BuildResult where
  "unarchived_build = built example_config quiet_world 0 linux_preset"

definition archived_build :: BuildResult where
  "archived_build =
     (built example_config quiet_world 0 mac_preset)
       \<lparr>archivePath := Some ''/home/runner/.local/share/godot/archives/Mac.zip''\<rparr>"

definition preset_path_config :: config where
  "preset_path_config = example_config\<lparr>USE_PRESET_EXPORT_PATH := True\<rparr>"

definition settings_fs :: filesystem where
  "settings_fs =
     (\<lambda>p. if p = ''/home/runner/.config/godot/editor_settings-3.tres'' then Some (RegularFile ''user settings'')
          else if p = ''/action/dist/editor_settings-3.tres'' then Some (RegularFile ''template'')
          else if p \<in> set [''/home'', ''/home/runner'', ''/home/runner/.config'', ''/home/runner/.config/godot'',
                            ''/action'', ''/action/dist'']
          then Some Directory else None)"

definition fresh_fs :: filesystem where
  "fresh_fs =
     (\<lambda>p. if p = ''/action/dist/editor_settings-3.tres'' then Some (RegularFile ''template'')
          else if p \<in> set [''/home'', ''/home/runner'', ''/action'', ''/action/dist'']
          then Some Directory else None)"

definition slash_preset :: ExportPreset where
  "slash_preset = \<lparr>name = ''Linux/X11'', platform = ''Linux/X11'', export_path = ''build/game.x86_64''\<rparr>"

definition plain_preset :: ExportPreset where
  "plain_preset = \<lparr>name = ''LinuxX11'', platform = ''Linux/X11'', export_path = ''bin/game.x86_64''\<rparr>"

definition bare_section_file :: ExportPresets where
  \<comment> \<open>the file \<open>[preset]\<close>\<close>
  "bare_section_file = ExportPresets (Some [])"

definition scalar_section_file :: ExportPresets where
  \<comment> \<open>the file \<open>[preset]\<close>, \<open>name="Linux"\<close>\<close>
  "scalar_section_file = ExportPresets (Some [(''name'', Scalar ''Linux'')])"

definition two_groups_file :: ExportPresets where
  "two_groups_file = ExportPresets (Some [(''0'', Group linux_preset), (''1'', Group mac_preset)])"

section \<open>Facts about the path library and the event trace\<close>

lemma path_normalize_nonempty: "path_normalize p \<noteq> []"
  by (auto simp: path_normalize_def Let_def)

lemma path_join_nonempty: "path_join args \<noteq> []"
  by (simp add: path_join_def Let_def path_normalize_nonempty)

lemma execs_append: "execs (a @ b) = execs a @ execs b"
  by (simp add: execs_def)

lemma execs_simps:
  "execs [] = []"
  "execs (Exec c a # tr) = (c, a) # execs tr"
  "execs (Info m # tr) = execs tr"
  "execs (Warning m # tr) = execs tr"
  "execs (MkdirP d # tr) = execs tr"
  "execs (Cp x y # tr) = execs tr"
  "execs (CpRecursive x y # tr) = execs tr"
  "execs (AddPath d # tr) = execs tr"
  "execs (StartGroup m # tr) = execs tr"
  "execs (EndGroup # tr) = execs tr"
  by (simp_all add: execs_def)

section \<open>The export invocations\<close>

lemma export_args_table:
  "export_args cfg p
     (export_output_path cfg (path_join [path_join [GODOT_BUILD_PATH cfg, sanitize (name p)],
        path_basename (export_path p)]))
   = table_invocation cfg p"
  by (cases "USE_GODOT_4 cfg"; cases "EXPORT_PACK_ONLY cfg"; cases "EXPORT_DEBUG cfg")
     (simp_all add: export_args_def export_output_path_def exportFlag_def table_invocation_def
        splice_insert_def Let_def)

text \<open>One iteration of the loop, by the three ways it can go.\<close>

lemma doExport_loop_skip:
  "export_path p = [] \<Longrightarrow>
   doExport_loop cfg w (p # ps) k acc tr
     = doExport_loop cfg w ps k acc (tr @ [Warning (skip_warning p)])"
  by simp

lemma doExport_loop_ok:
  "export_path p \<noteq> [] \<Longrightarrow> exec_run w k ''godot'' (table_invocation cfg p) = Exit 0 \<Longrightarrow>
   doExport_loop cfg w (p # ps) k acc tr
     = doExport_loop cfg w ps (Suc k) (acc @ [built cfg w k p]) (tr @ invocation_trace cfg p)"
  using path_join_nonempty [of "[path_join [GODOT_BUILD_PATH cfg, sanitize (name p)], path_basename (export_path p)]"]
  by (simp add: Let_def export_args_table invocation_trace_def built_def)

lemma doExport_loop_rejected:
  "export_path p \<noteq> [] \<Longrightarrow> exec_run w k ''godot'' (table_invocation cfg p) = Rejected m \<Longrightarrow>
   doExport_loop cfg w (p # ps) k acc tr = (tr @ invocation_trace cfg p, Inl (Error m))"
  using path_join_nonempty [of "[path_join [GODOT_BUILD_PATH cfg, sanitize (name p)], path_basename (export_path p)]"]
  by (simp add: Let_def export_args_table invocation_trace_def)

lemma doExport_loop_failed:
  "export_path p \<noteq> [] \<Longrightarrow> exec_run w k ''godot'' (table_invocation cfg p) = Exit r \<Longrightarrow> r \<noteq> 0 \<Longrightarrow>
   doExport_loop cfg w (p # ps) k acc tr
     = (tr @ invocation_trace cfg p, Inl (Error ''1 or more exports failed''))"
  using path_join_nonempty [of "[path_join [GODOT_BUILD_PATH cfg, sanitize (name p)], path_basename (export_path p)]"]
  by (simp add: Let_def export_args_table invocation_trace_def)

declare doExport_loop.simps(2) [simp del]

lemma execs_invocation_trace:
  "execs (invocation_trace cfg p) = [(''godot'', table_invocation cfg p)]"
  by (simp add: invocation_trace_def execs_append execs_simps)

lemma doExport_loop_execs:
  "\<exists>xs. execs (fst (doExport_loop cfg w ps k acc tr)) = execs tr @ xs
        \<and> prefix xs (table_invocations cfg ps)
        \<and> (\<forall>rs. snd (doExport_loop cfg w ps k acc tr) = Inr rs \<longrightarrow> xs = table_invocations cfg ps)"
proof (induction ps arbitrary: k acc tr)
  case Nil
  show ?case by (simp add: table_invocations_def)
next
  case (Cons p ps)
  show ?case
  proof (cases "export_path p = []")
    case True
    from Cons.IH [of k acc "tr @ [Warning (skip_warning p)]"] True
    show ?thesis
      by (simp add: doExport_loop_skip table_invocations_def execs_append execs_simps)
  next
    case False
    have ti: "table_invocations cfg (p # ps) = (''godot'', table_invocation cfg p) # table_invocations cfg ps"
      using False by (simp add: table_invocations_def)
    show ?thesis
    proof (cases "exec_run w k ''godot'' (table_invocation cfg p)")
      case (Rejected m)
      show ?thesis
        by (simp add: doExport_loop_rejected [OF False Rejected] ti execs_append execs_invocation_trace)
    next
      case (Exit r)
      show ?thesis
      proof (cases "r = 0")
        case False
        show ?thesis
          by (simp add: doExport_loop_failed [OF \<open>export_path p \<noteq> []\<close> Exit False] ti execs_append
                execs_invocation_trace)
      next
        case True
        with Exit have ok: "exec_run w k ''godot'' (table_invocation cfg p) = Exit 0" by simp
        from Cons.IH [of "Suc k" "acc @ [built cfg w k p]" "tr @ invocation_trace cfg p"]
        obtain xs where
          xs: "execs (fst (doExport_loop cfg w ps (Suc k) (acc @ [built cfg w k p]) (tr @ invocation_trace cfg p)))
                 = execs (tr @ invocation_trace cfg p) @ xs"
            "prefix xs (table_invocations cfg ps)"
            "\<forall>rs. snd (doExport_loop cfg w ps (Suc k) (acc @ [built cfg w k p]) (tr @ invocation_trace cfg p)) = Inr rs
                \<longrightarrow> xs = table_invocations cfg ps"
          by blast
        show ?thesis
          apply (rule exI [of _ "(''godot'', table_invocation cfg p) # xs"])
          using xs by (simp add: doExport_loop_ok [OF \<open>export_path p \<noteq> []\<close> ok] ti execs_append
                execs_invocation_trace)
      qed
    qed
  qed
qed

text \<open>
  C1, as amended. The engine invocations of a run are, in order, those of the decision
  table for the presets with an export path: \<open>--export\<close>, \<open>--export-debug\<close> or
  \<open>--export-pack\<close> on the legacy version, \<open>--export-release\<close> or \<open>--export-debug\<close> on the
  current one with \<open>--headless\<close> right after the project file, the output path with
  \<open>.pck\<close> appended whenever pack-only is requested (on either version), and
  \<open>--verbose\<close> last when asked for. A run that is cut short by a failed export has made a
  prefix of them; a run that returns has made them all.
\<close>

theorem doExport_invocations_follow_table:
  "prefix (execs (fst (doExport cfg w ps))) (table_invocations cfg ps)
   \<and> (\<forall>rs. snd (doExport cfg w ps) = Inr rs
         \<longrightarrow> execs (fst (doExport cfg w ps)) = table_invocations cfg ps)"
proof -
  let ?tr = "[Info (''Using project file at '' @ GODOT_PROJECT_FILE_PATH cfg)]"
  from doExport_loop_execs [of cfg w ps 0 "[]" ?tr] obtain xs where
    xs: "execs (fst (doExport_loop cfg w ps 0 [] ?tr)) = execs ?tr @ xs"
      "prefix xs (table_invocations cfg ps)"
      "\<forall>rs. snd (doExport_loop cfg w ps 0 [] ?tr) = Inr rs \<longrightarrow> xs = table_invocations cfg ps"
    by blast
  then show ?thesis by (simp add: doExport_def execs_simps)
qed

theorem doExport_invocations_follow_table_witness:
  "\<not> isl (snd (doExport current_debug_config quiet_world [empty_path_preset, linux_preset]))
   \<and> execs (fst (doExport current_debug_config quiet_world [empty_path_preset, linux_preset]))
     = [(''godot'', [''/work/project.godot'', ''--headless'', ''--export-debug'', ''Linux'',
                     ''/home/runner/.local/share/godot/builds/Linux/game.x86_64'', ''--verbose''])]"
proof -
  let ?run = "doExport current_debug_config quiet_world [empty_path_preset, linux_preset]"
  have ok: "\<not> isl (snd ?run)" by code_simp
  then obtain rs where "snd ?run = Inr rs" by (cases "snd ?run") auto
  with doExport_invocations_follow_table
    [of current_debug_config quiet_world "[empty_path_preset, linux_preset]"]
  have "execs (fst ?run) = table_invocations current_debug_config [empty_path_preset, linux_preset]"
    by blast
  moreover have "table_invocations current_debug_config [empty_path_preset, linux_preset]
      = [(''godot'', [''/work/project.godot'', ''--headless'', ''--export-debug'', ''Linux'',
                      ''/home/runner/.local/share/godot/builds/Linux/game.x86_64'', ''--verbose''])]"
    by code_simp
  ultimately show ?thesis using ok by simp
qed

text \<open>C1 as stated fails: on the legacy version with pack-only requested, the output
  path of the invocation carries the \<open>.pck\<close> suffix too.\<close>

theorem doExport_legacy_pack_only_appends_pck:
  "\<not> USE_GODOT_4 legacy_pack_config \<and> EXPORT_PACK_ONLY legacy_pack_config
   \<and> execs (fst (doExport legacy_pack_config quiet_world [linux_preset]))
     = [(''godot'', [''/work/project.godot'', ''--export-pack'', ''Linux'',
                     ''/home/runner/.local/share/godot/builds/Linux/game.x86_64.pck''])]"
  by code_simp

section \<open>Failed exports and skipped presets\<close>

lemma doExport_loop_trace:
  "doExport_loop cfg w ps k acc tr
     = (tr @ fst (doExport_loop cfg w ps k acc []), snd (doExport_loop cfg w ps k acc []))"
proof (induction ps arbitrary: k acc tr)
  case Nil
  show ?case by simp
next
  case (Cons p ps)
  show ?case
  proof (cases "export_path p = []")
    case True
    show ?thesis
      using Cons.IH [of k acc "tr @ [Warning (skip_warning p)]"] Cons.IH [of k acc "[Warning (skip_warning p)]"]
      by (simp add: doExport_loop_skip [OF True])
  next
    case False
    show ?thesis
    proof (cases "exec_run w k ''godot'' (table_invocation cfg p)")
      case (Rejected m)
      show ?thesis by (simp add: doExport_loop_rejected [OF False Rejected])
    next
      case (Exit r)
      show ?thesis
      proof (cases "r = 0")
        case False
        show ?thesis by (simp add: doExport_loop_failed [OF \<open>export_path p \<noteq> []\<close> Exit False])
      next
        case True
        with Exit have ok: "exec_run w k ''godot'' (table_invocation cfg p) = Exit 0" by simp
        show ?thesis
          using Cons.IH [of "Suc k" "acc @ [built cfg w k p]" "tr @ invocation_trace cfg p"]
            Cons.IH [of "Suc k" "acc @ [built cfg w k p]" "invocation_trace cfg p"]
          by (simp add: doExport_loop_ok [OF \<open>export_path p \<noteq> []\<close> ok])
      qed
    qed
  qed
qed

lemma doExport_loop_append:
  "doExport_loop cfg w (ps1 @ ps2) k acc tr
     = (case doExport_loop cfg w ps1 k acc tr of
          (tr1, Inl e) \<Rightarrow> (tr1, Inl e)
        | (tr1, Inr acc1) \<Rightarrow> doExport_loop cfg w ps2 (k + length acc1 - length acc) acc1 tr1)"
proof (induction ps1 arbitrary: k acc tr)
  case Nil
  show ?case by simp
next
  case (Cons p ps)
  show ?case
  proof (cases "export_path p = []")
    case True
    show ?thesis
      using Cons.IH [of k acc "tr @ [Warning (skip_warning p)]"]
      by (simp add: doExport_loop_skip [OF True])
  next
    case False
    show ?thesis
    proof (cases "exec_run w k ''godot'' (table_invocation cfg p)")
      case (Rejected m)
      show ?thesis by (simp add: doExport_loop_rejected [OF False Rejected])
    next
      case (Exit r)
      show ?thesis
      proof (cases "r = 0")
        case False
        show ?thesis by (simp add: doExport_loop_failed [OF \<open>export_path p \<noteq> []\<close> Exit False])
      next
        case True
        with Exit have ok: "exec_run w k ''godot'' (table_invocation cfg p) = Exit 0" by simp
        show ?thesis
          using Cons.IH [of "Suc k" "acc @ [built cfg w k p]" "tr @ invocation_trace cfg p"]
          by (simp add: doExport_loop_ok [OF \<open>export_path p \<noteq> []\<close> ok] split: prod.splits sum.splits)
      qed
    qed
  qed
qed

lemma doExport_append:
  "doExport cfg w (ps1 @ ps2)
     = (case doExport cfg w ps1 of
          (tr1, Inl e) \<Rightarrow> (tr1, Inl e)
        | (tr1, Inr rs) \<Rightarrow> doExport_loop cfg w ps2 (length rs) rs tr1)"
  by (simp add: doExport_def doExport_loop_append split: prod.splits sum.splits)

lemma doExport_loop_results:
  "snd (doExport_loop cfg w ps k acc tr) = Inr rs \<Longrightarrow>
   \<exists>new. rs = acc @ new \<and> (\<forall>r \<in> set new. export_path (preset r) \<noteq> [])"
proof (induction ps arbitrary: k acc tr)
  case Nil
  then show ?case by simp
next
  case (Cons p ps)
  show ?case
  proof (cases "export_path p = []")
    case True
    with Cons.prems Cons.IH [of k acc "tr @ [Warning (skip_warning p)]"]
    show ?thesis by (simp add: doExport_loop_skip)
  next
    case False
    show ?thesis
    proof (cases "exec_run w k ''godot'' (table_invocation cfg p)")
      case (Rejected m)
      with Cons.prems show ?thesis by (simp add: doExport_loop_rejected [OF False Rejected])
    next
      case (Exit r)
      show ?thesis
      proof (cases "r = 0")
        case False
        with Cons.prems show ?thesis
          by (simp add: doExport_loop_failed [OF \<open>export_path p \<noteq> []\<close> Exit False])
      next
        case True
        with Exit have ok: "exec_run w k ''godot'' (table_invocation cfg p) = Exit 0" by simp
        from Cons.prems have "snd (doExport_loop cfg w ps (Suc k) (acc @ [built cfg w k p]) (tr @ invocation_trace cfg p)) = Inr rs"
          by (simp add: doExport_loop_ok [OF \<open>export_path p \<noteq> []\<close> ok])
        from Cons.IH [OF this] obtain new where
          "rs = (acc @ [built cfg w k p]) @ new" "\<forall>r \<in> set new. export_path (preset r) \<noteq> []" by blast
        then show ?thesis using \<open>export_path p \<noteq> []\<close>
          by (intro exI [of _ "built cfg w k p # new"]) (simp add: built_def)
      qed
    qed
  qed
qed

text \<open>A run that returns has seen every engine invocation end with status 0.\<close>

lemma doExport_loop_zero_exits:
  "snd (doExport_loop cfg w ps k acc tr) = Inr rs \<Longrightarrow> j < length (table_invocations cfg ps) \<Longrightarrow>
   exec_run w (k + j) ''godot'' (snd (table_invocations cfg ps ! j)) = Exit 0"
proof (induction ps arbitrary: k acc tr j)
  case Nil
  then show ?case by (simp add: table_invocations_def)
next
  case (Cons p ps)
  show ?case
  proof (cases "export_path p = []")
    case True
    with Cons.prems Cons.IH [of k acc "tr @ [Warning (skip_warning p)]" j]
    show ?thesis by (simp add: doExport_loop_skip table_invocations_def)
  next
    case False
    have ti: "table_invocations cfg (p # ps) = (''godot'', table_invocation cfg p) # table_invocations cfg ps"
      using False by (simp add: table_invocations_def)
    show ?thesis
    proof (cases "exec_run w k ''godot'' (table_invocation cfg p)")
      case (Rejected m)
      with Cons.prems show ?thesis by (simp add: doExport_loop_rejected [OF False Rejected])
    next
      case (Exit r)
      show ?thesis
      proof (cases "r = 0")
        case False
        with Cons.prems show ?thesis
          by (simp add: doExport_loop_failed [OF \<open>export_path p \<noteq> []\<close> Exit False])
      next
        case True
        with Exit have ok: "exec_run w k ''godot'' (table_invocation cfg p) = Exit 0" by simp
        from Cons.prems(1)
        have run: "snd (doExport_loop cfg w ps (Suc k) (acc @ [built cfg w k p]) (tr @ invocation_trace cfg p)) = Inr rs"
          by (simp add: doExport_loop_ok [OF \<open>export_path p \<noteq> []\<close> ok])
        show ?thesis
        proof (cases j)
          case 0
          with ok show ?thesis by (simp add: ti)
        next
          case (Suc i)
          with Cons.prems(2) have "i < length (table_invocations cfg ps)" by (simp add: ti)
          from Cons.IH [OF run this] Suc show ?thesis by (simp add: ti)
        qed
      qed
    qed
  qed
qed

lemma doExport_returns_after_zero_exits:
  "snd (doExport cfg w ps) = Inr rs \<Longrightarrow> j < length (table_invocations cfg ps) \<Longrightarrow>
   exec_run w j ''godot'' (snd (table_invocations cfg ps ! j)) = Exit 0"
  using doExport_loop_zero_exits [of cfg w ps 0 "[]" _ rs j] by (simp add: doExport_def)

text \<open>
  C6. When the presets before \<open>p\<close> were exported (\<open>doExport\<close> on them returns \<open>rs\<close>) and
  the engine invocation for \<open>p\<close> does not end with exit status 0, the run on the whole
  list throws: its events are those up to and including that invocation, nothing is done
  for the presets after \<open>p\<close>, and the result is an error in place of any list of build
  results; when the invocation returned a non-zero status the error is
  \<open>1 or more exports failed\<close>.
\<close>

theorem doExport_failed_export_is_fatal:
  assumes "snd (doExport cfg w ps1) = Inr rs"
    and "export_path p \<noteq> []"
    and "exec_run w (length rs) ''godot'' (table_invocation cfg p) \<noteq> Exit 0"
  shows "fst (doExport cfg w (ps1 @ p # ps2)) = fst (doExport cfg w ps1) @ invocation_trace cfg p
         \<and> isl (snd (doExport cfg w (ps1 @ p # ps2)))
         \<and> (\<forall>r. exec_run w (length rs) ''godot'' (table_invocation cfg p) = Exit r
               \<longrightarrow> snd (doExport cfg w (ps1 @ p # ps2)) = Inl (Error ''1 or more exports failed''))"
proof -
  obtain tr1 where d1: "doExport cfg w ps1 = (tr1, Inr rs)"
    using assms(1) by (cases "doExport cfg w ps1") simp
  have step: "doExport cfg w (ps1 @ p # ps2) = doExport_loop cfg w (p # ps2) (length rs) rs tr1"
    by (simp add: doExport_append d1)
  show ?thesis
  proof (cases "exec_run w (length rs) ''godot'' (table_invocation cfg p)")
    case (Rejected m)
    show ?thesis
      by (simp add: step d1 Rejected doExport_loop_rejected [OF assms(2) Rejected])
  next
    case (Exit r)
    with assms(3) have "r \<noteq> 0" by simp
    show ?thesis
      by (simp add: step d1 Exit doExport_loop_failed [OF assms(2) Exit \<open>r \<noteq> 0\<close>])
  qed
qed

theorem doExport_failed_export_is_fatal_witness:
  "snd (doExport example_config failing_world [linux_preset, mac_preset, linux_preset])
     = Inl (Error ''1 or more exports failed'')
   \<and> fst (doExport example_config failing_world [linux_preset, mac_preset, linux_preset])
     = fst (doExport example_config failing_world [linux_preset])
       @ invocation_trace example_config mac_preset"
proof -
  let ?rs = "[built example_config failing_world 0 linux_preset]"
  have d1: "snd (doExport example_config failing_world [linux_preset]) = Inr ?rs"
    by code_simp
  have p: "export_path mac_preset \<noteq> []" by code_simp
  have r: "exec_run failing_world (length ?rs) ''godot'' (table_invocation example_config mac_preset)
             = Exit 1"
    by (simp add: failing_world_def)
  then have n: "exec_run failing_world (length ?rs) ''godot''
                  (table_invocation example_config mac_preset) \<noteq> Exit 0"
    by simp
  from doExport_failed_export_is_fatal [OF d1 p n, of "[linux_preset]"] r
  show ?thesis by simp
qed

text \<open>
  C7. A preset with an empty export path changes nothing but the log: the run returns
  what it returns without that preset (so it goes on with the next preset, and no build
  result is made for the skipped one), the engine is invoked exactly as without it, the
  warning for the preset is logged whenever the run gets to it, and no build result that is
  returned, hence none that reaches packaging or relocation, belongs to a preset with an
  empty export path.
\<close>

theorem doExport_skips_empty_export_path:
  assumes "export_path p = []"
  shows "snd (doExport cfg w (ps1 @ p # ps2)) = snd (doExport cfg w (ps1 @ ps2))
         \<and> execs (fst (doExport cfg w (ps1 @ p # ps2))) = execs (fst (doExport cfg w (ps1 @ ps2)))
         \<and> (\<forall>rs. snd (doExport cfg w ps1) = Inr rs
               \<longrightarrow> Warning (skip_warning p) \<in> set (fst (doExport cfg w (ps1 @ p # ps2))))
         \<and> (\<forall>rs. snd (doExport cfg w (ps1 @ p # ps2)) = Inr rs
               \<longrightarrow> (\<forall>r \<in> set rs. export_path (preset r) \<noteq> []))"
proof -
  have res: "\<forall>rs. snd (doExport cfg w (ps1 @ p # ps2)) = Inr rs
               \<longrightarrow> (\<forall>r \<in> set rs. export_path (preset r) \<noteq> [])"
    using doExport_loop_results [of cfg w "ps1 @ p # ps2" 0 "[]"] by (fastforce simp: doExport_def)
  show ?thesis
  proof (cases "doExport cfg w ps1")
    case (Pair tr1 res1)
    show ?thesis
    proof (cases res1)
      case (Inl e)
      with Pair res show ?thesis
        by (simp add: doExport_append [of cfg w ps1 "p # ps2"] doExport_append [of cfg w ps1 ps2])
    next
      case (Inr rs)
      have a: "doExport cfg w (ps1 @ p # ps2)
                 = doExport_loop cfg w ps2 (length rs) rs (tr1 @ [Warning (skip_warning p)])"
        by (simp add: doExport_append [of cfg w ps1 "p # ps2"] Pair Inr doExport_loop_skip [OF assms])
      have b: "doExport cfg w (ps1 @ ps2) = doExport_loop cfg w ps2 (length rs) rs tr1"
        by (simp add: doExport_append [of cfg w ps1 ps2] Pair Inr)
      have t1: "doExport_loop cfg w ps2 (length rs) rs (tr1 @ [Warning (skip_warning p)])
          = ((tr1 @ [Warning (skip_warning p)]) @ fst (doExport_loop cfg w ps2 (length rs) rs []),
             snd (doExport_loop cfg w ps2 (length rs) rs []))"
        by (rule doExport_loop_trace)
      have t2: "doExport_loop cfg w ps2 (length rs) rs tr1
          = (tr1 @ fst (doExport_loop cfg w ps2 (length rs) rs []),
             snd (doExport_loop cfg w ps2 (length rs) rs []))"
        by (rule doExport_loop_trace)
      from res show ?thesis
        by (simp add: a b t1 t2 execs_append execs_simps)
    qed
  qed
qed

theorem doExport_skips_empty_export_path_witness:
  "snd (doExport example_config quiet_world [linux_preset, empty_path_preset, mac_preset])
     = snd (doExport example_config quiet_world [linux_preset, mac_preset])
   \<and> execs (fst (doExport example_config quiet_world [linux_preset, empty_path_preset, mac_preset]))
     = execs (fst (doExport example_config quiet_world [linux_preset, mac_preset]))
   \<and> Warning (skip_warning empty_path_preset)
       \<in> set (fst (doExport example_config quiet_world [linux_preset, empty_path_preset, mac_preset]))
   \<and> \<not> isl (snd (doExport example_config quiet_world [linux_preset, empty_path_preset, mac_preset]))"
proof -
  have e: "export_path empty_path_preset = []" by code_simp
  have "\<not> isl (snd (doExport example_config quiet_world [linux_preset]))" by code_simp
  then obtain rs where rs: "snd (doExport example_config quiet_world [linux_preset]) = Inr rs"
    by (cases "snd (doExport example_config quiet_world [linux_preset])") auto
  have ok: "\<not> isl (snd (doExport example_config quiet_world [linux_preset, empty_path_preset, mac_preset]))"
    by code_simp
  from doExport_skips_empty_export_path [OF e, of example_config quiet_world "[linux_preset]" "[mac_preset]"]
    rs ok
  show ?thesis by simp
qed

section \<open>The search for the executable\<close>

text \<open>
  C2. The code at a tree with the executable three directories deep, between two decoy
  directories: the second loop of \<open>findGodotExecutablePath\<close> returns the result for the
  first entry it pushed, the empty directory \<open>docs\<close>, so the search answers \<open>undefined\<close>
  and \<open>prepareExecutable\<close> throws, while the depth-first traversal of the specification
  finds the file.
\<close>

theorem findGodotExecutablePath_stops_at_first_directory:
  "findGodotExecutablePath ''/home/runner/.local/share/godot/godot_executable'' nested_tree = Inr None
   \<and> depth_first_search ''/home/runner/.local/share/godot/godot_executable'' nested_tree
     = Some ''/home/runner/.local/share/godot/godot_executable/Godot_v3.5/bin/linux/Godot_v3.5-stable_x11.64''
   \<and> snd (prepareExecutable example_config quiet_world nested_tree)
     = Inl (Error ''Could not find Godot executable'')"
  by code_simp

section \<open>Packaging\<close>

lemma zipBuildResult_archivePath:
  "snd (zipBuildResult cfg w br) = Inr r \<Longrightarrow> r = br\<lparr>archivePath := Some (zipPath cfg br)\<rparr>"
  by (auto simp: zipBuildResult_def zipPath_def Let_def split: if_splits prod.splits option.splits)

lemma zipBuildResult_steam_archivePath:
  "snd (zipBuildResult_steam cfg w br) = Inr r \<Longrightarrow> r = br\<lparr>archivePath := Some (zipPath cfg br)\<rparr>"
  by (auto simp: zipBuildResult_steam_def zipPath_def Let_def split: if_splits prod.splits option.splits)

text \<open>
  C3, as amended. When the archive path \<open><archiveRoot>/<sanitizedName>.zip\<close> exists and the
  build result does not take the macOS branch, packaging only makes sure the archive
  directory exists: no external program is run, nothing is copied, and the archive path is
  recorded; run again on its own result it does the same and returns the same result.
  This holds for \<open>zipBuildResult\<close> of \<open>file.ts\<close> and for the variant with Steam
  assembly. Every run that returns, on any build result and in any environment, records
  that same archive path.
\<close>

theorem zipBuildResult_skips_existing_archive:
  assumes "existsSync w (zipPath cfg br)"
  shows "(\<not> mac_flat_export (DESKTOP_PLATFORM_macOS cfg) br \<longrightarrow>
            zipBuildResult cfg w br
              = ([MkdirP (GODOT_ARCHIVE_PATH cfg)], Inr (br\<lparr>archivePath := Some (zipPath cfg br)\<rparr>))
            \<and> zipBuildResult cfg w (br\<lparr>archivePath := Some (zipPath cfg br)\<rparr>)
              = ([MkdirP (GODOT_ARCHIVE_PATH cfg)], Inr (br\<lparr>archivePath := Some (zipPath cfg br)\<rparr>)))
         \<and> (\<not> mac_flat_export ''mac osx'' br \<longrightarrow>
            zipBuildResult_steam cfg w br
              = ([MkdirP (GODOT_ARCHIVE_PATH cfg)], Inr (br\<lparr>archivePath := Some (zipPath cfg br)\<rparr>))
            \<and> zipBuildResult_steam cfg w (br\<lparr>archivePath := Some (zipPath cfg br)\<rparr>)
              = ([MkdirP (GODOT_ARCHIVE_PATH cfg)], Inr (br\<lparr>archivePath := Some (zipPath cfg br)\<rparr>)))
         \<and> (\<forall>w' r. snd (zipBuildResult cfg w' br) = Inr r \<or> snd (zipBuildResult_steam cfg w' br) = Inr r
               \<longrightarrow> archivePath r = Some (zipPath cfg br))"
proof -
  have a: "\<not> mac_flat_export (DESKTOP_PLATFORM_macOS cfg) br \<Longrightarrow>
            zipBuildResult cfg w br
              = ([MkdirP (GODOT_ARCHIVE_PATH cfg)], Inr (br\<lparr>archivePath := Some (zipPath cfg br)\<rparr>))"
    using assms by (auto simp: zipBuildResult_def zipPath_def mac_flat_export_def Let_def)
  have a2: "\<not> mac_flat_export (DESKTOP_PLATFORM_macOS cfg) br \<Longrightarrow>
            zipBuildResult cfg w (br\<lparr>archivePath := Some (zipPath cfg br)\<rparr>)
              = ([MkdirP (GODOT_ARCHIVE_PATH cfg)], Inr (br\<lparr>archivePath := Some (zipPath cfg br)\<rparr>))"
    using assms by (auto simp: zipBuildResult_def zipPath_def mac_flat_export_def Let_def)
  have b: "\<not> mac_flat_export ''mac osx'' br \<Longrightarrow>
            zipBuildResult_steam cfg w br
              = ([MkdirP (GODOT_ARCHIVE_PATH cfg)], Inr (br\<lparr>archivePath := Some (zipPath cfg br)\<rparr>))"
    using assms by (auto simp: zipBuildResult_steam_def zipPath_def mac_flat_export_def Let_def)
  have b2: "\<not> mac_flat_export ''mac osx'' br \<Longrightarrow>
            zipBuildResult_steam cfg w (br\<lparr>archivePath := Some (zipPath cfg br)\<rparr>)
              = ([MkdirP (GODOT_ARCHIVE_PATH cfg)], Inr (br\<lparr>archivePath := Some (zipPath cfg br)\<rparr>))"
    using assms by (auto simp: zipBuildResult_steam_def zipPath_def mac_flat_export_def Let_def)
  have c: "\<forall>w' r. snd (zipBuildResult cfg w' br) = Inr r \<or> snd (zipBuildResult_steam cfg w' br) = Inr r
               \<longrightarrow> archivePath r = Some (zipPath cfg br)"
    using zipBuildResult_archivePath zipBuildResult_steam_archivePath by fastforce
  from a a2 b b2 c show ?thesis by blast
qed

theorem zipBuildResult_skips_existing_archive_witness:
  "zipBuildResult example_config archived_world linux_build
     = ([MkdirP ''/home/runner/.local/share/godot/archives''],
        Inr (linux_build\<lparr>archivePath := Some ''/home/runner/.local/share/godot/archives/Linux.zip''\<rparr>))
   \<and> zipBuildResult_steam example_config archived_world
         (linux_build\<lparr>archivePath := Some ''/home/runner/.local/share/godot/archives/Linux.zip''\<rparr>)
     = ([MkdirP ''/home/runner/.local/share/godot/archives''],
        Inr (linux_build\<lparr>archivePath := Some ''/home/runner/.local/share/godot/archives/Linux.zip''\<rparr>))
   \<and> archivePath (linux_build\<lparr>archivePath := Some ''/home/runner/.local/share/godot/archives/Linux.zip''\<rparr>)
     = Some (zipPath example_config linux_build)"
proof -
  have z: "zipPath example_config linux_build = ''/home/runner/.local/share/godot/archives/Linux.zip''"
    by code_simp
  have a: "GODOT_ARCHIVE_PATH example_config = ''/home/runner/.local/share/godot/archives''"
    by code_simp
  have e: "existsSync archived_world (zipPath example_config linux_build)"
    by (simp add: archived_world_def)
  have m1: "\<not> mac_flat_export (DESKTOP_PLATFORM_macOS example_config) linux_build" by code_simp
  have m2: "\<not> mac_flat_export ''mac osx'' linux_build" by code_simp
  have r: "snd (zipBuildResult example_config quiet_world linux_build)
             = Inr (linux_build\<lparr>archivePath := Some ''/home/runner/.local/share/godot/archives/Linux.zip''\<rparr>)"
    by code_simp
  from zipBuildResult_skips_existing_archive [OF e] m1 m2 r
  show ?thesis by (simp add: z a)
qed

text \<open>C3 as stated fails for a macOS build result whose export path does not match
  \<open>.app$\<close>: with the archive in place, \<open>zipBuildResult\<close> of \<open>file.ts\<close> copies the export
  over it again, and the variant with Steam assembly runs the archiver again.\<close>

theorem zipBuildResult_mac_export_ignores_existing_archive:
  "existsSync archived_world ''/home/runner/.local/share/godot/archives/Mac.zip''
   \<and> fst (zipBuildResult example_config archived_world mac_build)
     = [MkdirP ''/home/runner/.local/share/godot/archives'',
        Cp ''/home/runner/.local/share/godot/builds/Mac/game.zip''
           ''/home/runner/.local/share/godot/archives/Mac.zip'']
   \<and> (''7z'', [''a'', ''/home/runner/.local/share/godot/builds/Mac/game.app'',
               ''/home/runner/.local/share/godot/builds/Mac/game.zip''])
       \<in> set (execs (fst (zipBuildResult_steam example_config archived_world mac_build)))"
  by code_simp

text \<open>The programs of the macOS branch of \<open>assembleSteamContentsFor\<close>, for any
  configuration and build directory, when each of them ends with status 0.\<close>

lemma exec_all_success:
  "(\<And>j c a. exec_run w j c a = Exit 0) \<Longrightarrow> exec_all w k cmds = (map (\<lambda>(c, a). Exec c a) cmds, None)"
  by (induction cmds arbitrary: k) auto

lemma assembleSteamContentsFor_macOS_commands:
  assumes "Some (platform p) = map_of (DESKTOP_PLATFORMS cfg) ''macOS''"
    and "\<And>j c a. exec_run w j c a = Exit 0"
  shows "execs (fst (assembleSteamContentsFor cfg w k p buildDir))
           = [(''unzip'', [''-q'', buildDir, ''-d'', replace_first (path_basename (export_path p)) [] buildDir]),
              (''rm'', [buildDir]),
              (''ls'', [replace_first ''.zip'' ''.app'' buildDir]),
              (''cp'', [STEAM_APPID_PATH cfg,
                        path_join [replace_first ''.zip'' ''.app'' buildDir, ''Contents'', ''MacOS'']]),
              (''mv'', [STEAM_SDK_TARGET_PATH cfg (platform p),
                        path_join [replace_first ''.zip'' ''.app'' buildDir, ''Contents'', ''MacOS'']]),
              (''7z'', [''a'', replace_first ''.zip'' ''.app'' buildDir, buildDir])]"
  using assms(1)
  by (simp add: assembleSteamContentsFor_def Let_def exec_all_success [OF assms(2)] execs_append
        execs_simps del: exec_all.simps)

text \<open>
  C4. The external programs that packaging a macOS export \<open>game.zip\<close> runs, all of them
  ending with status 0: the last one is \<open>7z a\<close> with the bundle \<open>game.app\<close> as the archive
  to write and the removed \<open>game.zip\<close> as the file to add, the operands of the archiver
  exchanged with respect to the call in \<open>zipBuildResult\<close>; the copy to the archive path
  then reads \<open>game.zip\<close>, which \<open>rm\<close> deleted and nothing wrote again.
\<close>

theorem assembleSteamContentsFor_archives_into_bundle_path:
  "execs (fst (zipBuildResult_steam example_config quiet_world mac_build))
     = [(''unzip'', [''-q'', ''/home/runner/.local/share/godot/builds/Mac/game.zip'',
                     ''-d'', ''/home/runner/.local/share/godot/builds/Mac/'']),
        (''rm'', [''/home/runner/.local/share/godot/builds/Mac/game.zip'']),
        (''ls'', [''/home/runner/.local/share/godot/builds/Mac/game.app'']),
        (''cp'', [''/work/steam_appid.txt'',
                  ''/home/runner/.local/share/godot/builds/Mac/game.app/Contents/MacOS'']),
        (''mv'', [''/work/sdk/libsteam_api'',
                  ''/home/runner/.local/share/godot/builds/Mac/game.app/Contents/MacOS'']),
        (''7z'', [''a'', ''/home/runner/.local/share/godot/builds/Mac/game.app'',
                  ''/home/runner/.local/share/godot/builds/Mac/game.zip''])]
   \<and> last (fst (zipBuildResult_steam example_config quiet_world mac_build))
     = Cp ''/home/runner/.local/share/godot/builds/Mac/game.zip''
          ''/home/runner/.local/share/godot/archives/Mac.zip''"
  by code_simp

section \<open>Relocation\<close>

lemma move_one_archived:
  "move_one cfg True br =
     (if archived br
      then ([MkdirP (fullExportPath cfg br),
             Info (''Copying '' @ archive_of br @ '' to '' @ relocated_archive cfg br),
             Cp (archive_of br) (relocated_archive cfg br)],
            br\<lparr>archivePath := Some (relocated_archive cfg br)\<rparr>)
      else ([MkdirP (fullExportPath cfg br), Warning not_archived_warning], br))"
  by (simp add: move_one_def archived_def archive_of_def relocated_archive_def Let_def
        split: option.splits)

lemma move_loop_archived:
  "snd (move_loop cfg True brs)
     = map (\<lambda>br. if archived br then br\<lparr>archivePath := Some (relocated_archive cfg br)\<rparr> else br) brs
   \<and> copies (fst (move_loop cfg True brs))
     = map (\<lambda>br. (archive_of br, relocated_archive cfg br)) (filter archived brs)
   \<and> warnings (fst (move_loop cfg True brs))
     = map (\<lambda>br. not_archived_warning) (filter (\<lambda>br. \<not> archived br) brs)
   \<and> mkdirs (fst (move_loop cfg True brs)) = map (fullExportPath cfg) brs"
proof (induction brs)
  case Nil
  show ?case by (simp add: copies_def warnings_def mkdirs_def)
next
  case (Cons br brs)
  obtain trs rs where l: "move_loop cfg True brs = (trs, rs)" by (cases "move_loop cfg True brs")
  with Cons show ?case
    by (simp add: move_one_archived copies_def warnings_def mkdirs_def)
qed

text \<open>
  C5, as amended. With \<open>moveArchived\<close> set, relocation goes through the whole batch: a
  build result without an archive path is returned as it was, gets the warning and no
  copy; every build result with an archive path has the archive copied into its
  destination and its archive path set to the copy. The destination directory is made
  (\<open>mkdirP\<close>) for every build result of the batch, the skipped ones too.
\<close>

theorem moveBuildsToExportDirectory_archived:
  "snd (moveBuildsToExportDirectory cfg brs True)
     = map (\<lambda>br. if archived br then br\<lparr>archivePath := Some (relocated_archive cfg br)\<rparr> else br) brs
   \<and> copies (fst (moveBuildsToExportDirectory cfg brs True))
     = map (\<lambda>br. (archive_of br, relocated_archive cfg br)) (filter archived brs)
   \<and> warnings (fst (moveBuildsToExportDirectory cfg brs True))
     = map (\<lambda>br. not_archived_warning) (filter (\<lambda>br. \<not> archived br) brs)
   \<and> mkdirs (fst (moveBuildsToExportDirectory cfg brs True)) = map (fullExportPath cfg) brs"
proof -
  obtain trs rs where l: "move_loop cfg True brs = (trs, rs)" by (cases "move_loop cfg True brs")
  with move_loop_archived [of cfg brs] show ?thesis
    by (simp add: moveBuildsToExportDirectory_def copies_def warnings_def mkdirs_def)
qed

theorem moveBuildsToExportDirectory_archived_witness:
  "snd (moveBuildsToExportDirectory example_config [unarchived_build, archived_build] True)
     = [unarchived_build, archived_build\<lparr>archivePath := Some ''/work/dist/Mac.zip''\<rparr>]
   \<and> copies (fst (moveBuildsToExportDirectory example_config [unarchived_build, archived_build] True))
     = [(''/home/runner/.local/share/godot/archives/Mac.zip'', ''/work/dist/Mac.zip'')]
   \<and> warnings (fst (moveBuildsToExportDirectory example_config [unarchived_build, archived_build] True))
     = [not_archived_warning]
   \<and> mkdirs (fst (moveBuildsToExportDirectory example_config [unarchived_build, archived_build] True))
     = [''/work/dist'', ''/work/dist'']"
proof -
  have u: "\<not> archived unarchived_build" by code_simp
  have a: "archived archived_build" by code_simp
  have ao: "archive_of archived_build = ''/home/runner/.local/share/godot/archives/Mac.zip''"
    by code_simp
  have r: "relocated_archive example_config archived_build = ''/work/dist/Mac.zip''" by code_simp
  have f1: "fullExportPath example_config unarchived_build = ''/work/dist''" by code_simp
  have f2: "fullExportPath example_config archived_build = ''/work/dist''" by code_simp
  from moveBuildsToExportDirectory_archived [of example_config "[unarchived_build, archived_build]"]
  show ?thesis by (simp add: u a ao r f1 f2)
qed

text \<open>C5 as stated fails: for a build result that is skipped because it has no archive,
  the destination directory (here the directory of the preset's export path) is still
  made.\<close>

theorem moveBuildsToExportDirectory_creates_destination_of_skipped:
  "archivePath unarchived_build = None
   \<and> fst (moveBuildsToExportDirectory preset_path_config [unarchived_build] True)
     = [StartGroup ''Moving exports'', MkdirP ''/work/build'',
        Warning ''Attempted to move export output that was not archived. Skipping'', EndGroup]"
  by code_simp

section \<open>The preset file\<close>

text \<open>On preset groups alone the run from the file is \<open>doExport\<close> on the groups.\<close>

lemma doExport_values_groups:
  "doExport_values cfg w (map Group ps) k acc tr = doExport_loop cfg w ps k acc tr"
proof (induction ps arbitrary: k acc tr)
  case Nil
  show ?case by simp
next
  case (Cons p ps)
  have "doExport_loop cfg w (p # ps) k acc tr = doExport_loop cfg w ([p] @ ps) k acc tr" by simp
  also have "\<dots> = (case doExport_loop cfg w [p] k acc tr of
                      (tr1, Inl e) \<Rightarrow> (tr1, Inl e)
                    | (tr1, Inr acc1) \<Rightarrow> doExport_loop cfg w ps (k + length acc1 - length acc) acc1 tr1)"
    by (rule doExport_loop_append)
  finally show ?case by (simp add: Cons.IH split: prod.splits sum.splits)
qed

lemma doExport_of_file_groups:
  "doExport_of_file cfg w (Some (ExportPresets (Some (map (\<lambda>(key, p). (key, Group p)) groups))))
     = doExport cfg w (map snd groups)"
proof -
  have m: "map snd (map (\<lambda>(key, p). (key, Group p)) groups) = map Group (map snd groups)"
    by (induction groups) auto
  have g: "getExportPresets cfg (Some (ExportPresets (Some entries))) = ([], Inr (map snd entries))"
    for entries by (simp add: getExportPresets_def Let_def)
  show ?thesis
    unfolding doExport_of_file_def g m
    by (simp add: doExport_def doExport_values_groups Let_def del: map_map)
qed

text \<open>
  C10, as amended. When the preset file exists and there is nothing under \<open>preset\<close> in
  what \<open>ini.decode\<close> makes of it (no \<open>preset\<close> entry, or one for which the loop visits no
  key: neither a preset group nor any other key), \<open>getExportPresets\<close> throws nothing and
  returns the empty list, and the run of \<open>doExport\<close> from that file logs the project
  file, invokes nothing and returns no build results. The warning is logged when there
  is no \<open>preset\<close> entry, and not when there is one with no key.
\<close>

theorem getExportPresets_nothing_under_preset:
  assumes "preset_values presets = []"
  shows "getExportPresets cfg (Some presets)
           = ((if preset_section presets = None
               then [Warning (''No presets found in export_presets.cfg at ''
                              @ path_resolve (cwd cfg) (RELATIVE_PROJECT_PATH cfg))]
               else []),
              Inr [])
         \<and> doExport_of_file cfg w (Some presets)
           = (Info (''Using project file at '' @ GODOT_PROJECT_FILE_PATH cfg)
                # (if preset_section presets = None
                   then [Warning (''No presets found in export_presets.cfg at ''
                                  @ path_resolve (cwd cfg) (RELATIVE_PROJECT_PATH cfg))]
                   else []),
              Inr [])"
  using assms
  by (cases "preset_section presets")
     (simp_all add: getExportPresets_def doExport_of_file_def preset_values_def Let_def)

theorem getExportPresets_nothing_under_preset_witness:
  "getExportPresets example_config (Some (ExportPresets None))
     = ([Warning ''No presets found in export_presets.cfg at /work''], Inr [])
   \<and> doExport_of_file example_config quiet_world (Some (ExportPresets None))
     = ([Info ''Using project file at /work/project.godot'',
         Warning ''No presets found in export_presets.cfg at /work''], Inr [])"
proof -
  have g: "preset_values (ExportPresets None) = []" by (simp add: preset_values_def)
  have p: "path_resolve (cwd example_config) (RELATIVE_PROJECT_PATH example_config) = ''/work''"
    by code_simp
  have f: "GODOT_PROJECT_FILE_PATH example_config = ''/work/project.godot''" by code_simp
  from getExportPresets_nothing_under_preset [OF g, of example_config quiet_world] p f
  show ?thesis by simp
qed

text \<open>
  C10 as stated fails twice on files that parse and have no preset group. For the bare
  header \<open>[preset]\<close> the empty list is returned and no warning is logged. For \<open>[preset]\<close>
  with the key \<open>name="Linux"\<close> the list returned is not empty, it holds the string, and
  the run of \<open>doExport\<close> throws in \<open>sanitize\<close>.
\<close>

theorem getExportPresets_section_without_groups:
  "getExportPresets example_config (Some bare_section_file) = ([], Inr [])
   \<and> getExportPresets example_config (Some scalar_section_file) = ([], Inr [Scalar ''Linux''])
   \<and> doExport_of_file example_config quiet_world (Some scalar_section_file)
     = ([Info ''Using project file at /work/project.godot''], Inl (Error ''Input must be string''))"
  by code_simp

text \<open>A file with two preset groups, for comparison: both are exported.\<close>

lemma doExport_of_file_two_groups:
  "doExport_of_file example_config quiet_world (Some two_groups_file)
     = doExport example_config quiet_world [linux_preset, mac_preset]"
  using doExport_of_file_groups
          [of example_config quiet_world "[(''0'', linux_preset), (''1'', mac_preset)]"]
  by (simp add: two_groups_file_def)

section \<open>Editor settings\<close>

lemma path_resolve_nonempty: "path_resolve wd p \<noteq> []"
  by (simp add: path_resolve_def Let_def)

lemma GODOT_CONFIG_PATH_nonempty: "GODOT_CONFIG_PATH cfg \<noteq> []"
  by (simp add: GODOT_CONFIG_PATH_def path_resolve_nonempty)

lemma io_mkdirP_result:
  "io_mkdirP fs p = Inr fs1 \<Longrightarrow>
   (\<forall>q. fs1 q = (if q \<in> set (path_prefixes p) then Some Directory else fs q))
   \<and> (\<forall>q \<in> set (path_prefixes p). \<not> is_regular (fs q))"
  by (auto simp: io_mkdirP_def list_ex_iff split: if_splits)

lemma io_mkdirP_keeps_files:
  "io_mkdirP fs p = Inr fs1 \<Longrightarrow> fs q = Some (RegularFile c) \<Longrightarrow> fs1 q = Some (RegularFile c)"
proof -
  assume m: "io_mkdirP fs p = Inr fs1" and f: "fs q = Some (RegularFile c)"
  from f have "is_regular (fs q)" by (simp add: is_regular_def)
  with io_mkdirP_result [OF m] have "q \<notin> set (path_prefixes p)" by blast
  with io_mkdirP_result [OF m] f show ?thesis by simp
qed

lemma io_mkdirP_again:
  "io_mkdirP fs p = Inr fs1 \<Longrightarrow> io_mkdirP fs1 p = Inr fs1"
proof -
  assume m: "io_mkdirP fs p = Inr fs1"
  from m have ne: "p \<noteq> []" by (auto simp: io_mkdirP_def split: if_splits)
  from io_mkdirP_result [OF m]
  have r: "\<And>q. fs1 q = (if q \<in> set (path_prefixes p) then Some Directory else fs q)" by blast
  have "\<not> list_ex (\<lambda>q. is_regular (fs1 q)) (path_prefixes p)"
    by (simp add: list_ex_iff r is_regular_def)
  moreover have "(\<lambda>q. if q \<in> set (path_prefixes p) then Some Directory else fs1 q) = fs1"
    by (rule ext) (simp add: r)
  ultimately show ?thesis using ne by (simp add: io_mkdirP_def)
qed

lemma io_cp_existing_file:
  "fs dest = Some (RegularFile c) \<Longrightarrow> io_cp wd fs source dest False = Inr fs"
  by (simp add: io_cp_def is_regular_def)

text \<open>
  C9. When a settings file is present at the target, \<open>addEditorSettings\<close> returns whenever
  the configuration directory can be made (no regular file sits on its path); the
  settings file keeps its contents, the only paths that change are directories made on the
  way to the configuration directory (the template is copied nowhere), and running the
  operation again on the result changes nothing.
\<close>

theorem addEditorSettings_keeps_existing_settings:
  assumes "fs (editorSettingsPath cfg) = Some (RegularFile content)"
  shows "(\<not> list_ex (\<lambda>q. is_regular (fs q)) (path_prefixes (GODOT_CONFIG_PATH cfg))
            \<longrightarrow> (\<exists>fs' tr. addEditorSettings cfg fs = Inr (fs', tr)))
         \<and> (\<forall>fs' tr. addEditorSettings cfg fs = Inr (fs', tr)
               \<longrightarrow> fs' (editorSettingsPath cfg) = Some (RegularFile content)
                 \<and> (\<forall>p. fs' p = fs p
                        \<or> (p \<in> set (path_prefixes (GODOT_CONFIG_PATH cfg)) \<and> fs' p = Some Directory))
                 \<and> addEditorSettings cfg fs' = Inr (fs', tr))"
proof (intro conjI impI allI)
  assume "\<not> list_ex (\<lambda>q. is_regular (fs q)) (path_prefixes (GODOT_CONFIG_PATH cfg))"
  then obtain fs1 where m: "io_mkdirP fs (GODOT_CONFIG_PATH cfg) = Inr fs1"
    by (simp add: io_mkdirP_def GODOT_CONFIG_PATH_nonempty)
  from io_mkdirP_keeps_files [OF m assms]
  have "fs1 (editorSettingsPath cfg) = Some (RegularFile content)" .
  then have "io_cp (cwd cfg) fs1 (path_join [dist_dirname cfg, EDITOR_SETTINGS_FILENAME cfg])
               (editorSettingsPath cfg) False = Inr fs1"
    by (rule io_cp_existing_file)
  with m show "\<exists>fs' tr. addEditorSettings cfg fs = Inr (fs', tr)"
    by (simp add: addEditorSettings_def editorSettingsPath_def Let_def)
next
  fix fs' tr
  assume run: "addEditorSettings cfg fs = Inr (fs', tr)"
  then obtain fs1 where m: "io_mkdirP fs (GODOT_CONFIG_PATH cfg) = Inr fs1"
    by (cases "io_mkdirP fs (GODOT_CONFIG_PATH cfg)") (simp_all add: addEditorSettings_def Let_def)
  from io_mkdirP_keeps_files [OF m assms]
  have s1: "fs1 (editorSettingsPath cfg) = Some (RegularFile content)" .
  then have cp: "io_cp (cwd cfg) fs1 (path_join [dist_dirname cfg, EDITOR_SETTINGS_FILENAME cfg])
               (editorSettingsPath cfg) False = Inr fs1"
    by (rule io_cp_existing_file)
  from run m cp have eq: "fs' = fs1"
    and tr: "tr = [Info (''Wrote editor settings to '' @ editorSettingsPath cfg)]"
    by (simp_all add: addEditorSettings_def editorSettingsPath_def Let_def)
  show "fs' (editorSettingsPath cfg) = Some (RegularFile content)" using eq s1 by simp
  show "fs' p = fs p \<or> (p \<in> set (path_prefixes (GODOT_CONFIG_PATH cfg)) \<and> fs' p = Some Directory)" for p
    using io_mkdirP_result [OF m] eq by (cases "p \<in> set (path_prefixes (GODOT_CONFIG_PATH cfg))") auto
  show "addEditorSettings cfg fs' = Inr (fs', tr)"
    using io_mkdirP_again [OF m] cp eq tr
    by (simp add: addEditorSettings_def editorSettingsPath_def Let_def)
qed

lemma settings_fs_present:
  "settings_fs (editorSettingsPath example_config) = Some (RegularFile ''user settings'')"
proof -
  have "editorSettingsPath example_config = ''/home/runner/.config/godot/editor_settings-3.tres''"
    by code_simp
  then show ?thesis by (simp add: settings_fs_def)
qed

theorem addEditorSettings_keeps_existing_settings_witness:
  "(\<exists>fs' tr. addEditorSettings example_config settings_fs = Inr (fs', tr)
       \<and> fs' (editorSettingsPath example_config) = Some (RegularFile ''user settings'')
       \<and> addEditorSettings example_config fs' = Inr (fs', tr))"
proof -
  have pre: "path_prefixes (GODOT_CONFIG_PATH example_config)
               = [''/home'', ''/home/runner'', ''/home/runner/.config'', ''/home/runner/.config/godot'']"
    by code_simp
  have nr: "\<not> list_ex (\<lambda>q. is_regular (settings_fs q)) (path_prefixes (GODOT_CONFIG_PATH example_config))"
    unfolding pre by (simp add: settings_fs_def is_regular_def)
  from addEditorSettings_keeps_existing_settings
         [of settings_fs example_config "''user settings''", OF settings_fs_present] nr
  show ?thesis by blast
qed

text \<open>Without a settings file the template is copied to the target.\<close>

lemma addEditorSettings_materializes_template:
  "(case addEditorSettings example_config fresh_fs of
      Inl e \<Rightarrow> None
    | Inr (fs', tr) \<Rightarrow> fs' ''/home/runner/.config/godot/editor_settings-3.tres'')
   = Some (RegularFile ''template'')"
proof -
  have c: "GODOT_CONFIG_PATH example_config = ''/home/runner/.config/godot''" by code_simp
  have pre: "path_prefixes ''/home/runner/.config/godot''
               = [''/home'', ''/home/runner'', ''/home/runner/.config'', ''/home/runner/.config/godot'']"
    by code_simp
  have d: "path_join [dist_dirname example_config, EDITOR_SETTINGS_FILENAME example_config]
             = ''/action/dist/editor_settings-3.tres''" by code_simp
  have s: "path_join [''/home/runner/.config/godot'', EDITOR_SETTINGS_FILENAME example_config]
             = ''/home/runner/.config/godot/editor_settings-3.tres''" by code_simp
  have dn: "path_dirname ''/home/runner/.config/godot/editor_settings-3.tres'' = ''/home/runner/.config/godot''"
    by code_simp
  have r1: "path_resolve (cwd example_config) ''/action/dist/editor_settings-3.tres''
              = ''/action/dist/editor_settings-3.tres''" by code_simp
  have r2: "path_resolve (cwd example_config) ''/home/runner/.config/godot/editor_settings-3.tres''
              = ''/home/runner/.config/godot/editor_settings-3.tres''" by code_simp
  show ?thesis
    by (simp add: addEditorSettings_def io_mkdirP_def io_cp_def c pre d s dn r1 r2 fresh_fs_def
          is_regular_def Let_def)
qed

section \<open>Sanitized names and the paths made of them\<close>

text \<open>Joining a directory with one more segment appends the segment; joining it with
  nothing normalizes it.\<close>

lemma split_on_nonempty: "split_on c xs \<noteq> []"
  by (induction xs) (auto split: list.splits)

lemma split_on_free: "c \<notin> set s \<Longrightarrow> split_on c s = [s]"
  by (induction s) auto

lemma split_on_append: "c \<notin> set s \<Longrightarrow> split_on c (b @ c # s) = split_on c b @ [s]"
proof (induction b)
  case Nil
  then show ?case by (simp add: split_on_free)
next
  case (Cons x xs)
  then show ?case using split_on_nonempty [of c xs]
    by (cases "split_on c xs") auto
qed

lemma join_segments_snoc:
  "join_segments (r @ [s]) = (if r = [] then s else join_segments r @ CHR ''/'' # s)"
  by (induction r rule: join_segments.induct) auto

lemma normalize_step_segment:
  "s \<noteq> [] \<Longrightarrow> s \<noteq> ''.'' \<Longrightarrow> s \<noteq> ''..'' \<Longrightarrow> normalize_step a r s = r @ [s]"
  by (simp add: normalize_step_def)

lemma path_join_segment:
  assumes "b \<noteq> []" "s \<noteq> []" "CHR ''/'' \<notin> set s" "s \<noteq> ''.''" "s \<noteq> ''..''"
  shows "path_join [b, s]
           = root_prefix b @ (if normal_segments b = [] then s
                              else join_segments (normal_segments b) @ CHR ''/'' # s)"
proof -
  have j: "join_segments [b, s] = b @ CHR ''/'' # s" by simp
  have h: "hd (b @ CHR ''/'' # s) = hd b" using assms(1) by simp
  have "last (b @ CHR ''/'' # s) = last s" using assms(2) by simp
  moreover have "last s \<in> set s" using assms(2) by simp
  ultimately have l: "last (b @ CHR ''/'' # s) \<noteq> CHR ''/''" using assms(3) by metis
  have q: "normalizeString (b @ CHR ''/'' # s) (hd b \<noteq> CHR ''/'')
             = join_segments (normal_segments b @ [s])"
    using assms by (simp add: normalizeString_def normal_segments_def split_on_append normalize_step_segment)
  have qn: "join_segments (normal_segments b @ [s]) \<noteq> []"
    using assms(2) by (simp add: join_segments_snoc)
  show ?thesis
    using assms(1,2) h l q qn
    by (simp add: path_join_def path_normalize_def Let_def root_prefix_def join_segments_snoc)
qed

lemma path_join_empty_segment:
  assumes "b \<noteq> []"
  shows "path_join [b, []]
           = (if join_segments (normal_segments b) = []
              then (if hd b = CHR ''/'' then ''/'' else if last b = CHR ''/'' then ''./'' else ''.'')
              else root_prefix b @ join_segments (normal_segments b)
                   @ (if last b = CHR ''/'' then ''/'' else []))"
  using assms
  by (simp add: path_join_def path_normalize_def Let_def root_prefix_def normalizeString_def
        normal_segments_def)

lemma path_join_segment_inj:
  assumes "b \<noteq> []"
    and "CHR ''/'' \<notin> set s" "s \<noteq> ''.''" "s \<noteq> ''..''"
    and "CHR ''/'' \<notin> set t" "t \<noteq> ''.''" "t \<noteq> ''..''"
  shows "path_join [b, s] = path_join [b, t] \<longleftrightarrow> s = t"
proof
  assume eq: "path_join [b, s] = path_join [b, t]"
  have ne: "u \<noteq> [] \<Longrightarrow> CHR ''/'' \<notin> set u \<Longrightarrow> u \<noteq> ''.'' \<Longrightarrow> u \<noteq> ''..'' \<Longrightarrow>
            path_join [b, []] \<noteq> path_join [b, u]" for u
  proof -
    assume u: "u \<noteq> []" "CHR ''/'' \<notin> set u" "u \<noteq> ''.''" "u \<noteq> ''..''"
    have u1: "u \<noteq> ''./''" using u(2) by auto
    have u2: "CHR ''/'' # u \<noteq> ''./''" by simp
    show ?thesis
      using u u1
      by (auto simp: path_join_segment [OF assms(1) u] path_join_empty_segment [OF assms(1)]
            root_prefix_def)
  qed
  show "s = t"
  proof (cases "s = []")
    case True
    show ?thesis
    proof (cases "t = []")
      case True
      with \<open>s = []\<close> show ?thesis by simp
    next
      case False
      from ne [OF False assms(5,6,7)] eq True show ?thesis by simp
    qed
  next
    case False
    show ?thesis
    proof (cases "t = []")
      case True
      from ne [OF False assms(2,3,4)] eq True show ?thesis by simp
    next
      case tf: False
      from eq show ?thesis
        by (simp add: path_join_segment [OF assms(1) False assms(2,3,4)]
              path_join_segment [OF assms(1) tf assms(5,6,7)] split: if_splits)
    qed
  qed
qed simp

lemma truncate_bytes_set: "set (truncate_bytes n s) \<subseteq> set s"
  by (induction n s rule: truncate_bytes.induct) auto

lemma truncate_bytes_long:
  "truncate_bytes n s = s \<or> n < 2 * length (truncate_bytes n s) + 2"
proof (induction n s rule: truncate_bytes.induct)
  case (1 n)
  show ?case by simp
next
  case (2 n c cs)
  show ?case
  proof (cases "n < utf8_length c")
    case True
    then show ?thesis by (auto simp: utf8_length_def split: if_splits)
  next
    case False
    with 2 show ?thesis by (auto simp: utf8_length_def split: if_splits)
  qed
qed

lemma sanitize_no_slash: "CHR ''/'' \<notin> set (sanitize n)"
proof -
  have "set (sanitize n) \<subseteq> set (filter (\<lambda>c. \<not> illegal_char c) n)"
    using truncate_bytes_set set_dropWhileD
    by (fastforce simp: sanitize_def Let_def split: if_splits)
  then show ?thesis by (auto simp: illegal_char_def)
qed

lemma dropWhile_head: "dropWhile P xs = y # ys \<Longrightarrow> \<not> P y"
  using hd_dropWhile [of P xs] by auto

lemma stripped_not_dots:
  "rev (dropWhile (\<lambda>c. c = CHR ''.'' \<or> c = CHR '' '') (rev s)) \<noteq> ''.''
   \<and> rev (dropWhile (\<lambda>c. c = CHR ''.'' \<or> c = CHR '' '') (rev s)) \<noteq> ''..''"
proof (intro conjI notI)
  assume "rev (dropWhile (\<lambda>c. c = CHR ''.'' \<or> c = CHR '' '') (rev s)) = ''.''"
  then have "rev (rev (dropWhile (\<lambda>c. c = CHR ''.'' \<or> c = CHR '' '') (rev s))) = rev ''.''"
    by (rule arg_cong)
  then have "dropWhile (\<lambda>c. c = CHR ''.'' \<or> c = CHR '' '') (rev s) = CHR ''.'' # []"
    by (simp del: rev_is_rev_conv)
  from dropWhile_head [OF this] show False by simp
next
  assume "rev (dropWhile (\<lambda>c. c = CHR ''.'' \<or> c = CHR '' '') (rev s)) = ''..''"
  then have "rev (rev (dropWhile (\<lambda>c. c = CHR ''.'' \<or> c = CHR '' '') (rev s))) = rev ''..''"
    by (rule arg_cong)
  then have "dropWhile (\<lambda>c. c = CHR ''.'' \<or> c = CHR '' '') (rev s) = CHR ''.'' # ''.''"
    by (simp del: rev_is_rev_conv)
  from dropWhile_head [OF this] show False by simp
qed

lemma sanitize_not_dots: "sanitize n \<noteq> ''.'' \<and> sanitize n \<noteq> ''..''"
proof -
  define s2 where "s2 = filter (\<lambda>c. \<not> control_char c) (filter (\<lambda>c. \<not> illegal_char c) n)"
  define s3 where "s3 = (if s2 \<noteq> [] \<and> list_all (\<lambda>c. c = CHR ''.'') s2 then [] else s2)"
  define s4 where "s4 = (if windows_reserved s3 then [] else s3)"
  define s5 where "s5 = rev (dropWhile (\<lambda>c. c = CHR ''.'' \<or> c = CHR '' '') (rev s4))"
  have san: "sanitize n = truncate_bytes 255 s5"
    by (simp add: sanitize_def Let_def s2_def s3_def s4_def s5_def)
  have nd: "s5 \<noteq> ''.''" "s5 \<noteq> ''..''"
    using stripped_not_dots [of s4] by (simp_all add: s5_def)
  from truncate_bytes_long [of 255 s5] show ?thesis
  proof
    assume "truncate_bytes 255 s5 = s5"
    with san nd show ?thesis by simp
  next
    assume "255 < 2 * length (truncate_bytes 255 s5) + 2"
    then have "2 < length (sanitize n)" using san by simp
    then show ?thesis by auto
  qed
qed

lemma doExport_loop_built:
  "snd (doExport_loop cfg w ps k acc tr) = Inr rs \<Longrightarrow>
   \<exists>new. rs = acc @ new \<and> (\<forall>r \<in> set new. \<exists>j p. r = built cfg w j p)"
proof (induction ps arbitrary: k acc tr)
  case Nil
  then show ?case by simp
next
  case (Cons p ps)
  show ?case
  proof (cases "export_path p = []")
    case True
    with Cons.prems Cons.IH [of k acc "tr @ [Warning (skip_warning p)]"]
    show ?thesis by (simp add: doExport_loop_skip)
  next
    case False
    show ?thesis
    proof (cases "exec_run w k ''godot'' (table_invocation cfg p)")
      case (Rejected m)
      with Cons.prems show ?thesis by (simp add: doExport_loop_rejected [OF False Rejected])
    next
      case (Exit r)
      show ?thesis
      proof (cases "r = 0")
        case False
        with Cons.prems show ?thesis
          by (simp add: doExport_loop_failed [OF \<open>export_path p \<noteq> []\<close> Exit False])
      next
        case True
        with Exit have ok: "exec_run w k ''godot'' (table_invocation cfg p) = Exit 0" by simp
        from Cons.prems have "snd (doExport_loop cfg w ps (Suc k) (acc @ [built cfg w k p]) (tr @ invocation_trace cfg p)) = Inr rs"
          by (simp add: doExport_loop_ok [OF \<open>export_path p \<noteq> []\<close> ok])
        from Cons.IH [OF this] obtain new where
          new: "rs = (acc @ [built cfg w k p]) @ new" "\<forall>r \<in> set new. \<exists>j p. r = built cfg w j p" by blast
        show ?thesis
        proof (intro exI [of _ "built cfg w k p # new"] conjI ballI)
          show "rs = acc @ built cfg w k p # new" using new(1) by simp
          fix r assume "r \<in> set (built cfg w k p # new)"
          with new(2) show "\<exists>j p. r = built cfg w j p" by auto
        qed
      qed
    qed
  qed
qed

lemma doExport_results_built:
  assumes "snd (doExport cfg w ps) = Inr rs" "r \<in> set rs"
  shows "directory r = path_join [GODOT_BUILD_PATH cfg, sanitize (name (preset r))]
         \<and> sanitizedName r = sanitize (name (preset r))"
proof -
  from doExport_loop_built [of cfg w ps 0 "[]" _ rs] assms
  obtain j p where "r = built cfg w j p" by (fastforce simp: doExport_def)
  then show ?thesis by (simp add: built_def)
qed

lemma GODOT_BUILD_PATH_nonempty: "GODOT_BUILD_PATH cfg \<noteq> []"
  by (simp add: GODOT_BUILD_PATH_def path_join_nonempty)

lemma GODOT_ARCHIVE_PATH_nonempty: "GODOT_ARCHIVE_PATH cfg \<noteq> []"
  by (simp add: GODOT_ARCHIVE_PATH_def path_join_nonempty)

lemma build_directory_inj:
  "path_join [GODOT_BUILD_PATH cfg, sanitize a] = path_join [GODOT_BUILD_PATH cfg, sanitize b]
     \<longleftrightarrow> sanitize a = sanitize b"
  using sanitize_not_dots [of a] sanitize_not_dots [of b]
  by (intro path_join_segment_inj GODOT_BUILD_PATH_nonempty sanitize_no_slash) simp_all

lemma archive_path_inj:
  "path_join [GODOT_ARCHIVE_PATH cfg, sanitize a @ ''.zip''] = path_join [GODOT_ARCHIVE_PATH cfg, sanitize b @ ''.zip'']
     \<longleftrightarrow> sanitize a = sanitize b"
proof -
  have "path_join [GODOT_ARCHIVE_PATH cfg, sanitize a @ ''.zip''] = path_join [GODOT_ARCHIVE_PATH cfg, sanitize b @ ''.zip'']
     \<longleftrightarrow> sanitize a @ ''.zip'' = sanitize b @ ''.zip''"
    using sanitize_no_slash [of a] sanitize_no_slash [of b]
    by (intro path_join_segment_inj GODOT_ARCHIVE_PATH_nonempty) auto
  then show ?thesis by simp
qed

text \<open>
  C8, as amended. Among the build results of a run, the scratch build directory and the
  archive path are decided by the sanitized preset name: two build results have the same
  build directory exactly when their presets' names sanitize to the same string, and
  likewise the same archive path. Presets whose sanitized names differ never share a
  path; nothing keeps distinct names from having the same sanitized name.
\<close>

theorem sanitized_names_decide_paths:
  assumes "snd (doExport cfg w ps) = Inr rs" and "r1 \<in> set rs" and "r2 \<in> set rs"
  shows "(directory r1 = directory r2
            \<longleftrightarrow> sanitize (name (preset r1)) = sanitize (name (preset r2)))
         \<and> (zipPath cfg r1 = zipPath cfg r2
            \<longleftrightarrow> sanitize (name (preset r1)) = sanitize (name (preset r2)))"
  using doExport_results_built [OF assms(1,2)] doExport_results_built [OF assms(1,3)]
  by (simp add: zipPath_def build_directory_inj archive_path_inj)

theorem sanitized_names_decide_paths_witness:
  "directory (built example_config quiet_world 0 linux_preset)
     \<noteq> directory (built example_config quiet_world 1 mac_preset)
   \<and> zipPath example_config (built example_config quiet_world 0 linux_preset)
     \<noteq> zipPath example_config (built example_config quiet_world 1 mac_preset)"
proof -
  let ?l = "built example_config quiet_world 0 linux_preset"
  let ?m = "built example_config quiet_world 1 mac_preset"
  have run: "snd (doExport example_config quiet_world [linux_preset, mac_preset]) = Inr [?l, ?m]"
    by code_simp
  have names: "sanitize (name (preset ?l)) \<noteq> sanitize (name (preset ?m))" by code_simp
  from sanitized_names_decide_paths [OF run, of ?l ?m] names
  show ?thesis by simp
qed

text \<open>C8 as stated fails: the presets named \<open>Linux/X11\<close> and \<open>LinuxX11\<close> have distinct
  names, and their build results share the build directory and the archive path.\<close>

theorem sanitized_names_collide:
  "name slash_preset \<noteq> name plain_preset
   \<and> map directory (case snd (doExport example_config quiet_world [slash_preset, plain_preset]) of
                       Inl e \<Rightarrow> [] | Inr rs \<Rightarrow> rs)
     = [''/home/runner/.local/share/godot/builds/LinuxX11'',
        ''/home/runner/.local/share/godot/builds/LinuxX11'']
   \<and> map (zipPath example_config)
         (case snd (doExport example_config quiet_world [slash_preset, plain_preset]) of
            Inl e \<Rightarrow> [] | Inr rs \<Rightarrow> rs)
     = [''/home/runner/.local/share/godot/archives/LinuxX11.zip'',
        ''/home/runner/.local/share/godot/archives/LinuxX11.zip'']"
  by code_simp

end
